theory Spec2Isabelle
  imports Main
begin

section \<open>Python values, truthiness and exceptions\<close>

text \<open>
  The option values handled by \<^verbatim>\<open>devito/core/cpu.py\<close> are Python objects. The model keeps
  the kinds that occur as option values: \<^verbatim>\<open>None\<close>, booleans, unbounded integers, strings,
  tuples, and dictionaries keyed by strings (as built by \<^verbatim>\<open>_normalize_kwargs\<close>), the latter
  in insertion order.
\<close>

datatype pyval =
    PNone
  | PBool bool
  | PInt int
  | PStr string
  | PTuple "pyval list"
  | PDict "(string \<times> pyval) list"

text \<open>Python's truth-value test, which \<^verbatim>\<open>or\<close> and \<^verbatim>\<open>if\<close> apply to a value.\<close>

fun truthy :: "pyval \<Rightarrow> bool" where
  "truthy PNone = False"
| "truthy (PBool b) = b"
| "truthy (PInt n) = (n \<noteq> 0)"
| "truthy (PStr s) = (s \<noteq> [])"
| "truthy (PTuple xs) = (xs \<noteq> [])"
| "truthy (PDict kvs) = (kvs \<noteq> [])"

text \<open>\<^verbatim>\<open>x or d\<close>: the left operand when it is truthy, the right one otherwise.\<close>

definition py_or :: "pyval \<Rightarrow> pyval \<Rightarrow> pyval" where
  "py_or x d = (if truthy x then x else d)"

text \<open>
  The exceptions of the model. \<open>InvalidOperator\<close> is the configuration error of
  \<^verbatim>\<open>devito.exceptions\<close>; its two messages in this file are kept apart by a tag.
  \<open>KeyError\<close> carries the missing key. \<open>PassError\<close> stands for any exception raised
  inside an external pass that is not an instance of \<^verbatim>\<open>KeyError\<close>.
\<close>

datatype message =
    Unknown_passes "string list"
  | Min_storage_with_advanced_fsg

datatype exn =
    KeyError string
  | InvalidOperator message
  | PassError string

section \<open>Options, platform and keyword arguments\<close>

text \<open>
  \<^verbatim>\<open>kwargs['options']\<close> is a dictionary from option names to values. Reading a key
  with \<^verbatim>\<open>options[k]\<close> or \<^verbatim>\<open>options.pop(k)\<close> raises \<^verbatim>\<open>KeyError\<close> when the key is absent;
  \<^verbatim>\<open>options.get(k)\<close> yields \<^verbatim>\<open>None\<close> instead.
\<close>

type_synonym options = "string \<rightharpoonup> pyval"

definition getitem :: "options \<Rightarrow> string \<Rightarrow> exn + pyval" where
  "getitem d k = (case d k of None \<Rightarrow> Inl (KeyError k) | Some v \<Rightarrow> Inr v)"

definition pop :: "options \<Rightarrow> string \<Rightarrow> exn + (pyval \<times> options)" where
  "pop d k = (case d k of None \<Rightarrow> Inl (KeyError k) | Some v \<Rightarrow> Inr (v, d(k := None)))"

definition dict_get :: "options \<Rightarrow> string \<Rightarrow> pyval" where
  "dict_get d k = (case d k of None \<Rightarrow> PNone | Some v \<Rightarrow> v)"

record platform =
  simd_reg_size :: int

text \<open>
  The keyword arguments every class method receives. \<^verbatim>\<open>kwargs['sregistry']\<close> is a
  reference to the build's mutable symbol registry; that object is part of the world
  state on which the external passes act (see below), so the record has no field for it.
\<close>

record kwargs =
  options :: options
  platform :: platform
  mode :: "string list"

text \<open>
  Modelled from the spec: \<^verbatim>\<open>devito.tools.as_tuple\<close> is not in the source at hand. The
  spec has \<^verbatim>\<open>mode\<close> as an ordered sequence of pass-identifier tokens, which
  \<^verbatim>\<open>as_tuple\<close> turns into a tuple of the same tokens in the same order.
\<close>

definition as_tuple :: "string list \<Rightarrow> string list" where
  "as_tuple xs = xs"

section \<open>The operator classes\<close>

text \<open>
  The classes of the file. \<^verbatim>\<open>Intel64Operator\<close>, \<^verbatim>\<open>PowerOperator\<close> and \<^verbatim>\<open>ArmOperator\<close>
  are other names of \<^verbatim>\<open>CPU64Operator\<close>; \<^verbatim>\<open>Intel64OpenMPOperator\<close>,
  \<^verbatim>\<open>PowerOpenMPOperator\<close> and \<^verbatim>\<open>ArmOpenMPOperator\<close> of \<^verbatim>\<open>CPU64OpenMPOperator\<close>.
\<close>

datatype cls =
    CPU64NoopOperator
  | CPU64Operator
  | CPU64OpenMPOperator
  | Intel64FSGOperator
  | Intel64FSGOpenMPOperator
  | CustomOperator

abbreviation Intel64Operator :: cls where "Intel64Operator \<equiv> CPU64Operator"
abbreviation Intel64OpenMPOperator :: cls where "Intel64OpenMPOperator \<equiv> CPU64OpenMPOperator"
abbreviation PowerOperator :: cls where "PowerOperator \<equiv> CPU64Operator"
abbreviation PowerOpenMPOperator :: cls where "PowerOpenMPOperator \<equiv> CPU64OpenMPOperator"
abbreviation ArmOperator :: cls where "ArmOperator \<equiv> CPU64Operator"
abbreviation ArmOpenMPOperator :: cls where "ArmOpenMPOperator \<equiv> CPU64OpenMPOperator"

text \<open>
  The class attributes of \<^verbatim>\<open>CPU64NoopOperator\<close>. No subclass of the file overrides them,
  so \<^verbatim>\<open>cls.BLOCK_LEVELS\<close> and the others resolve to these values for every class.
\<close>

definition BLOCK_LEVELS :: "cls \<Rightarrow> pyval" where
  "BLOCK_LEVELS c = PInt 1"

definition CIRE_REPEATS_INV :: "cls \<Rightarrow> pyval" where
  "CIRE_REPEATS_INV c = PInt 1"

definition CIRE_REPEATS_SOPS :: "cls \<Rightarrow> pyval" where
  "CIRE_REPEATS_SOPS c = PInt 5"

definition CIRE_MINCOST_INV :: "cls \<Rightarrow> pyval" where
  "CIRE_MINCOST_INV c = PInt 50"

definition CIRE_MINCOST_SOPS :: "cls \<Rightarrow> pyval" where
  "CIRE_MINCOST_SOPS c = PInt 10"

section \<open>Normalization of the keyword arguments\<close>

text \<open>
  \<^verbatim>\<open>CPU64NoopOperator._normalize_kwargs\<close>, statement by statement. The dictionary displays
  evaluate their values left to right, so the four \<^verbatim>\<open>pop\<close>s happen in the order written,
  and the first absent key decides the \<^verbatim>\<open>KeyError\<close>.
\<close>

definition CPU64NoopOperator_normalize_kwargs :: "cls \<Rightarrow> kwargs \<Rightarrow> exn + kwargs" where
  "CPU64NoopOperator_normalize_kwargs c kw =
     (case getitem (options kw) ''blocklevels'' of
        Inl e \<Rightarrow> Inl e
      | Inr bl \<Rightarrow>
     let opts0 = (options kw)(''blocklevels'' \<mapsto> py_or bl (BLOCK_LEVELS c)) in
     (case pop opts0 ''cire-repeats-inv'' of
        Inl e \<Rightarrow> Inl e
      | Inr (ri, opts1) \<Rightarrow>
     (case pop opts1 ''cire-repeats-sops'' of
        Inl e \<Rightarrow> Inl e
      | Inr (rs, opts2) \<Rightarrow>
     let opts3 = opts2(''cire-repeats'' \<mapsto>
                   PDict [(''invariants'', py_or ri (CIRE_REPEATS_INV c)),
                          (''sops'', py_or rs (CIRE_REPEATS_SOPS c))]) in
     (case pop opts3 ''cire-mincost-inv'' of
        Inl e \<Rightarrow> Inl e
      | Inr (mi, opts4) \<Rightarrow>
     (case pop opts4 ''cire-mincost-sops'' of
        Inl e \<Rightarrow> Inl e
      | Inr (ms, opts5) \<Rightarrow>
     let opts6 = opts5(''cire-mincost'' \<mapsto>
                   PDict [(''invariants'', py_or mi (CIRE_MINCOST_INV c)),
                          (''sops'', py_or ms (CIRE_MINCOST_SOPS c))]) in
     Inr (kw\<lparr>options := opts6\<rparr>))))))"

text \<open>
  \<^verbatim>\<open>Intel64FSGOperator._normalize_kwargs\<close>: the inherited normalization first (the
  \<^verbatim>\<open>super\<close> call reaches \<^verbatim>\<open>CPU64NoopOperator\<close>, no class in between defines the method),
  then the rejection of \<^verbatim>\<open>min-storage\<close>.
\<close>

definition Intel64FSGOperator_normalize_kwargs :: "cls \<Rightarrow> kwargs \<Rightarrow> exn + kwargs" where
  "Intel64FSGOperator_normalize_kwargs c kw =
     (case CPU64NoopOperator_normalize_kwargs c kw of
        Inl e \<Rightarrow> Inl e
      | Inr kw' \<Rightarrow>
          if truthy (dict_get (options kw') ''min-storage'')
          then Inl (InvalidOperator Min_storage_with_advanced_fsg)
          else Inr kw')"

text \<open>Method resolution of \<^verbatim>\<open>cls._normalize_kwargs\<close>.\<close>

fun normalize_kwargs :: "cls \<Rightarrow> kwargs \<Rightarrow> exn + kwargs" where
  "normalize_kwargs Intel64FSGOperator kw = Intel64FSGOperator_normalize_kwargs Intel64FSGOperator kw"
| "normalize_kwargs Intel64FSGOpenMPOperator kw =
     Intel64FSGOperator_normalize_kwargs Intel64FSGOpenMPOperator kw"
| "normalize_kwargs c kw = CPU64NoopOperator_normalize_kwargs c kw"

section \<open>External passes, the trace of invocations, and computations\<close>

text \<open>
  The passes of \<^verbatim>\<open>devito.passes.clusters\<close> and \<^verbatim>\<open>devito.passes.iet\<close> are external. A
  value of type \<open>call\<close> names one invocation of an external pass as the source writes
  it, with the arguments that are not the running representation:
  \<^item> \<open>Fuse t\<close> is \<^verbatim>\<open>fuse(clusters, toposort=True)\<close> when \<open>t\<close> holds and \<^verbatim>\<open>fuse(clusters)\<close>
    otherwise;
  \<^item> \<open>Cire m opts p\<close> is \<^verbatim>\<open>cire(clusters, m, sregistry, options, platform)\<close>;
  \<^item> \<open>Lift_process\<close> is \<^verbatim>\<open>Lift().process(clusters)\<close> and \<open>Blocking_process opts\<close> is
    \<^verbatim>\<open>Blocking(options).process(clusters)\<close>;
  \<^item> \<open>Mpiize m\<close> is \<^verbatim>\<open>mpiize(graph, mode=m)\<close>, \<open>Make_simd n\<close> is
    \<^verbatim>\<open>ompizer.make_simd(graph, simd_reg_size=n)\<close>, \<open>Make_parallel\<close> is
    \<^verbatim>\<open>ompizer.make_parallel(graph)\<close>;
  \<^item> \<open>Place_definitions\<close> and \<open>Place_casts\<close> are the two methods of the data manager.
  Building the objects \<^verbatim>\<open>Lift()\<close>, \<^verbatim>\<open>Ompizer(sregistry)\<close> and \<^verbatim>\<open>DataManager(sregistry)\<close> only
  stores the arguments; the pass is the method call. Building \<^verbatim>\<open>Blocking(options)\<close> reads the
  options and raises when it misses one, so that constructor is a part of the library too
  (\<open>Blocking_init\<close> below); it is no pass and leaves no entry in the trace.
\<close>

datatype call =
    Fuse bool
  | Cire string options platform
  | Lift_process
  | Blocking_process options
  | Extract_increments
  | Factorize
  | Optimize_pows
  | Cse
  | Eliminate_arrays
  | Avoid_denormals
  | Optimize_halospots
  | Mpiize pyval
  | Relax_incr_dimensions
  | Make_simd int
  | Make_parallel
  | Hoist_prodders
  | Place_definitions
  | Place_casts

text \<open>
  The pass library is a parameter of the model. The world \<open>'w\<close> holds every mutable
  object the passes act on: the symbol registry and the graph that the IET passes
  change in place. A cluster pass takes the cluster sequence \<open>'c\<close> and returns a new
  one; an IET pass returns nothing. Either may raise, and leaves the world as it
  was at that moment. \<open>Blocking_init opts\<close> is the outcome of the constructor call
  \<^verbatim>\<open>Blocking(options)\<close>: it returns, or it raises.
\<close>

record ('c, 'w) passes =
  cluster_pass :: "call \<Rightarrow> 'c \<Rightarrow> 'w \<Rightarrow> 'w \<times> (exn + 'c)"
  iet_pass :: "call \<Rightarrow> 'w \<Rightarrow> 'w \<times> (exn + unit)"
  Blocking_init :: "options \<Rightarrow> exn + unit"

text \<open>
  A computation runs on the world together with the trace of the external passes
  invoked so far, and ends with a value or with an exception. Only \<open>call_cluster\<close> and
  \<open>call_iet\<close> extend the trace: by the call, at the moment it is made, whether the
  pass then returns or raises.
\<close>

type_synonym 'w state = "call list \<times> 'w"

type_synonym ('w, 'a) comp = "'w state \<Rightarrow> 'w state \<times> (exn + 'a)"

definition pure :: "'a \<Rightarrow> ('w, 'a) comp" where
  "pure x = (\<lambda>s. (s, Inr x))"

definition throw :: "exn \<Rightarrow> ('w, 'a) comp" where
  "throw e = (\<lambda>s. (s, Inl e))"

definition andthen :: "('w, 'a) comp \<Rightarrow> ('a \<Rightarrow> ('w, 'b) comp) \<Rightarrow> ('w, 'b) comp" where
  "andthen m k = (\<lambda>s. case m s of (s', Inl e) \<Rightarrow> (s', Inl e) | (s', Inr x) \<Rightarrow> k x s')"

definition lift :: "exn + 'a \<Rightarrow> ('w, 'a) comp" where
  "lift r = (\<lambda>s. (s, r))"

definition call_cluster :: "('c, 'w) passes \<Rightarrow> call \<Rightarrow> 'c \<Rightarrow> ('w, 'c) comp" where
  "call_cluster lib c clusters =
     (\<lambda>(tr, w). case cluster_pass lib c clusters w of (w', r) \<Rightarrow> ((tr @ [c], w'), r))"

definition call_iet :: "('c, 'w) passes \<Rightarrow> call \<Rightarrow> ('w, unit) comp" where
  "call_iet lib c = (\<lambda>(tr, w). case iet_pass lib c w of (w', r) \<Rightarrow> ((tr @ [c], w'), r))"

section \<open>The fixed strategies\<close>

text \<open>
  The decorator \<^verbatim>\<open>timed_pass\<close> only measures the time of the method it wraps; the
  methods are modelled without it.
\<close>


text \<open>
  \<^verbatim>\<open>CPU64Operator._specialize_clusters\<close>. The statement
  \<^verbatim>\<open>clusters = Blocking(options).process(clusters)\<close> builds the object, then calls its method.
\<close>

definition CPU64Operator_specialize_clusters ::
  "('c, 'w) passes \<Rightarrow> kwargs \<Rightarrow> 'c \<Rightarrow> ('w, 'c) comp" where
  "CPU64Operator_specialize_clusters lib kw clusters =
     andthen (call_cluster lib (Fuse True) clusters) (\<lambda>clusters.
     andthen (call_cluster lib (Cire ''invariants'' (options kw) (platform kw)) clusters) (\<lambda>clusters.
     andthen (call_cluster lib Lift_process clusters) (\<lambda>clusters.
     andthen (lift (Blocking_init lib (options kw))) (\<lambda>_.
     andthen (call_cluster lib (Blocking_process (options kw)) clusters) (\<lambda>clusters.
     andthen (call_cluster lib Extract_increments clusters) (\<lambda>clusters.
     andthen (call_cluster lib (Cire ''sops'' (options kw) (platform kw)) clusters) (\<lambda>clusters.
     andthen (call_cluster lib Factorize clusters) (\<lambda>clusters.
     andthen (call_cluster lib Optimize_pows clusters) (\<lambda>clusters.
     andthen (call_cluster lib Cse clusters) (\<lambda>clusters.
     andthen (call_cluster lib (Fuse False) clusters) (\<lambda>clusters.
     andthen (call_cluster lib Eliminate_arrays clusters) (\<lambda>clusters.
     pure clusters))))))))))))"



text \<open>\<^verbatim>\<open>Intel64FSGOperator._specialize_clusters\<close>.\<close>

definition Intel64FSGOperator_specialize_clusters ::
  "('c, 'w) passes \<Rightarrow> kwargs \<Rightarrow> 'c \<Rightarrow> ('w, 'c) comp" where
  "Intel64FSGOperator_specialize_clusters lib kw clusters =
     andthen (call_cluster lib (Fuse True) clusters) (\<lambda>clusters.
     andthen (call_cluster lib (Cire ''invariants'' (options kw) (platform kw)) clusters) (\<lambda>clusters.
     andthen (call_cluster lib Lift_process clusters) (\<lambda>clusters.
     andthen (call_cluster lib Extract_increments clusters) (\<lambda>clusters.
     andthen (call_cluster lib (Cire ''sops'' (options kw) (platform kw)) clusters) (\<lambda>clusters.
     andthen (call_cluster lib Factorize clusters) (\<lambda>clusters.
     andthen (call_cluster lib Optimize_pows clusters) (\<lambda>clusters.
     andthen (call_cluster lib Cse clusters) (\<lambda>clusters.
     andthen (call_cluster lib (Fuse False) clusters) (\<lambda>clusters.
     andthen (call_cluster lib Eliminate_arrays clusters) (\<lambda>clusters.
     andthen (lift (Blocking_init lib (options kw))) (\<lambda>_.
     andthen (call_cluster lib (Blocking_process (options kw)) clusters) (\<lambda>clusters.
     pure clusters))))))))))))"

section \<open>The custom operator\<close>

definition known_passes :: "string list" where
  "known_passes = [''blocking'', ''denormals'', ''optcomms'', ''openmp'', ''mpi'',
                   ''simd'', ''prodders'', ''topofuse'', ''fuse'', ''factorize'',
                   ''cire-sops'', ''cse'', ''lift'', ''opt-pows'']"

text \<open>
  \<^verbatim>\<open>CustomOperator._make_clusters_passes_mapper\<close>. The dictionary display builds
  \<^verbatim>\<open>Blocking(options)\<close> when the mapper is built, whatever \<^verbatim>\<open>mode\<close> holds, so a constructor
  that raises does so here. The entry of \<^verbatim>\<open>'lift'\<close> calls \<^verbatim>\<open>cire\<close> first and \<^verbatim>\<open>Lift().process\<close>
  on its result.
\<close>

definition make_clusters_passes_mapper ::
  "('c, 'w) passes \<Rightarrow> kwargs \<Rightarrow> exn + (string \<rightharpoonup> ('c \<Rightarrow> ('w, 'c) comp))" where
  "make_clusters_passes_mapper lib kw =
     (case Blocking_init lib (options kw) of
        Inl e \<Rightarrow> Inl e
      | Inr _ \<Rightarrow>
          Inr [''blocking'' \<mapsto> call_cluster lib (Blocking_process (options kw)),
               ''factorize'' \<mapsto> call_cluster lib Factorize,
               ''fuse'' \<mapsto> call_cluster lib (Fuse False),
               ''lift'' \<mapsto> (\<lambda>i. andthen (call_cluster lib
                                          (Cire ''invariants'' (options kw) (platform kw)) i)
                                       (call_cluster lib Lift_process)),
               ''cire-sops'' \<mapsto> call_cluster lib (Cire ''sops'' (options kw) (platform kw)),
               ''cse'' \<mapsto> call_cluster lib Cse,
               ''opt-pows'' \<mapsto> call_cluster lib Optimize_pows,
               ''topofuse'' \<mapsto> call_cluster lib (Fuse True)])"

text \<open>
  \<^verbatim>\<open>CustomOperator._make_iet_passes_mapper\<close>. The dictionary display reads
  \<^verbatim>\<open>options['mpi']\<close> when the mapper is built, so an absent key raises here.
\<close>

definition make_iet_passes_mapper ::
  "('c, 'w) passes \<Rightarrow> kwargs \<Rightarrow> exn + (string \<rightharpoonup> ('w, unit) comp)" where
  "make_iet_passes_mapper lib kw =
     (case getitem (options kw) ''mpi'' of
        Inl e \<Rightarrow> Inl e
      | Inr mpi \<Rightarrow>
          Inr [''denormals'' \<mapsto> call_iet lib Avoid_denormals,
               ''optcomms'' \<mapsto> call_iet lib Optimize_halospots,
               ''blocking'' \<mapsto> call_iet lib Relax_incr_dimensions,
               ''openmp'' \<mapsto> call_iet lib Make_parallel,
               ''mpi'' \<mapsto> call_iet lib (Mpiize mpi),
               ''simd'' \<mapsto> call_iet lib (Make_simd (simd_reg_size (platform kw))),
               ''prodders'' \<mapsto> call_iet lib Hoist_prodders])"

text \<open>
  \<^verbatim>\<open>CustomOperator._build\<close>. The inherited \<^verbatim>\<open>_build\<close> is not in the source at hand and
  is the parameter \<open>super_build\<close>.
\<close>

definition CustomOperator_build ::
  "('x \<Rightarrow> kwargs \<Rightarrow> ('w, 'r) comp) \<Rightarrow> 'x \<Rightarrow> kwargs \<Rightarrow> ('w, 'r) comp" where
  "CustomOperator_build super_build expressions kw =
     (let passes = as_tuple (mode kw) in
      if list_ex (\<lambda>i. i \<notin> set known_passes) passes
      then throw (InvalidOperator (Unknown_passes passes))
      else super_build expressions kw)"

text \<open>
  The loop of \<^verbatim>\<open>CustomOperator._specialize_clusters\<close>. The \<^verbatim>\<open>try\<close> block holds the lookup
  and the call, so \<^verbatim>\<open>except KeyError: pass\<close> catches the \<^verbatim>\<open>KeyError\<close> of an absent token
  and also a \<^verbatim>\<open>KeyError\<close> raised inside the pass; in both cases \<^verbatim>\<open>clusters\<close> keeps its
  value and the loop goes on. Any other exception leaves the method.
\<close>

fun clusters_call_passes ::
  "(string \<rightharpoonup> ('c \<Rightarrow> ('w, 'c) comp)) \<Rightarrow> string list \<Rightarrow> 'c \<Rightarrow> ('w, 'c) comp" where
  "clusters_call_passes passes_mapper [] clusters = pure clusters"
| "clusters_call_passes passes_mapper (i # passes) clusters =
     (case passes_mapper i of
        None \<Rightarrow> clusters_call_passes passes_mapper passes clusters
      | Some f \<Rightarrow>
          (\<lambda>s. case f clusters s of
                 (s', Inr clusters') \<Rightarrow> clusters_call_passes passes_mapper passes clusters' s'
               | (s', Inl (KeyError k)) \<Rightarrow> clusters_call_passes passes_mapper passes clusters s'
               | (s', Inl e) \<Rightarrow> (s', Inl e)))"

text \<open>
  \<^verbatim>\<open>CustomOperator._specialize_clusters\<close>: the mapper is built before the loop and outside
  the \<^verbatim>\<open>try\<close> block.
\<close>

definition CustomOperator_specialize_clusters ::
  "('c, 'w) passes \<Rightarrow> kwargs \<Rightarrow> 'c \<Rightarrow> ('w, 'c) comp" where
  "CustomOperator_specialize_clusters lib kw clusters =
     (let passes = as_tuple (mode kw) in
      andthen (lift (make_clusters_passes_mapper lib kw)) (\<lambda>passes_mapper.
      clusters_call_passes passes_mapper passes clusters))"

text \<open>The loop of \<^verbatim>\<open>CustomOperator._specialize_iet\<close>, with the same \<^verbatim>\<open>try\<close> block.\<close>

fun iet_call_passes ::
  "(string \<rightharpoonup> ('w, unit) comp) \<Rightarrow> string list \<Rightarrow> ('w, unit) comp" where
  "iet_call_passes passes_mapper [] = pure ()"
| "iet_call_passes passes_mapper (i # passes) =
     (case passes_mapper i of
        None \<Rightarrow> iet_call_passes passes_mapper passes
      | Some f \<Rightarrow>
          (\<lambda>s. case f s of
                 (s', Inr _) \<Rightarrow> iet_call_passes passes_mapper passes s'
               | (s', Inl (KeyError k)) \<Rightarrow> iet_call_passes passes_mapper passes s'
               | (s', Inl e) \<Rightarrow> (s', Inl e)))"

text \<open>\<^verbatim>\<open>passes_mapper[k](graph)\<close> outside a \<^verbatim>\<open>try\<close> block.\<close>

definition mapper_call :: "(string \<rightharpoonup> ('w, unit) comp) \<Rightarrow> string \<Rightarrow> ('w, unit) comp" where
  "mapper_call passes_mapper k =
     (case passes_mapper k of None \<Rightarrow> throw (KeyError k) | Some f \<Rightarrow> f)"

text \<open>
  \<^verbatim>\<open>CustomOperator._specialize_iet\<close>. The conditions \<^verbatim>\<open>'mpi' not in passes and options['mpi']\<close>
  read the option only when the token is not in \<^verbatim>\<open>passes\<close>.
\<close>

definition CustomOperator_specialize_iet ::
  "('c, 'w) passes \<Rightarrow> kwargs \<Rightarrow> ('w, unit) comp" where
  "CustomOperator_specialize_iet lib kw =
     (let passes = as_tuple (mode kw) in
      andthen (lift (make_iet_passes_mapper lib kw)) (\<lambda>passes_mapper.
      andthen (iet_call_passes passes_mapper passes) (\<lambda>_.
      andthen (if ''mpi'' \<notin> set passes
               then andthen (lift (getitem (options kw) ''mpi'')) (\<lambda>mpi.
                    if truthy mpi then mapper_call passes_mapper ''mpi'' else pure ())
               else pure ()) (\<lambda>_.
      andthen (if ''openmp'' \<notin> set passes
               then andthen (lift (getitem (options kw) ''openmp'')) (\<lambda>openmp.
                    if truthy openmp then mapper_call passes_mapper ''openmp'' else pure ())
               else pure ()) (\<lambda>_.
      andthen (call_iet lib Place_definitions) (\<lambda>_.
      andthen (call_iet lib Place_casts) (\<lambda>_.
      pure ())))))))"

section \<open>Method resolution\<close>


section \<open>The pipeline executor of the specification\<close>

text \<open>
  The specification describes one generic primitive: given an ordered list of passes that
  are already resolved, and an initial representation, apply each in order, threading
  output to input for cluster passes, or changing the shared graph in place for IET
  passes; a pass that raises ends the pipeline. These two definitions follow those words
  and are compared below with the loops taken from the source.
\<close>

fun pipeline_executor :: "('r \<Rightarrow> ('w, 'r) comp) list \<Rightarrow> 'r \<Rightarrow> ('w, 'r) comp" where
  "pipeline_executor [] r = pure r"
| "pipeline_executor (f # fs) r = andthen (f r) (pipeline_executor fs)"

fun iet_pipeline_executor :: "('w, unit) comp list \<Rightarrow> ('w, unit) comp" where
  "iet_pipeline_executor [] = pure ()"
| "iet_pipeline_executor (f # fs) = andthen f (\<lambda>_. iet_pipeline_executor fs)"

section \<open>Predicates on traces\<close>

text \<open>
  \<open>emits A m\<close>: whatever the outcome of \<open>m\<close>, it extends the trace by calls of \<open>A\<close> only.
  \<open>placement_last m\<close>: in every run of \<open>m\<close> no call follows the placement of definitions
  and casts, and a run that returns ends with exactly these two calls.
  \<open>runs_ok m cs\<close>: from every state \<open>m\<close> returns and extends the trace by exactly \<open>cs\<close>.
  \<open>returns m\<close>: from every state \<open>m\<close> returns.
\<close>

definition emits :: "call set \<Rightarrow> ('w, 'a) comp \<Rightarrow> bool" where
  "emits A m = (\<forall>tr w tr' w' r. m (tr, w) = ((tr', w'), r) \<longrightarrow> (\<exists>cs. tr' = tr @ cs \<and> set cs \<subseteq> A))"


definition runs_ok :: "('w, 'a) comp \<Rightarrow> call list \<Rightarrow> bool" where
  "runs_ok m cs = (\<forall>tr w. \<exists>w' x. m (tr, w) = ((tr @ cs, w'), Inr x))"

definition returns :: "('w, 'a) comp \<Rightarrow> bool" where
  "returns m = (\<forall>s. \<exists>s' x. m s = (s', Inr x))"

section \<open>Example inputs\<close>

text \<open>
  A pass library in which every pass returns (a cluster pass adds one to a counter that
  stands for the cluster sequence, every pass adds one to the world), a library whose
  \<^verbatim>\<open>cse\<close> raises \<^verbatim>\<open>KeyError\<close> from inside, and keyword arguments with every recognised option
  present. In both libraries the constructor of \<^verbatim>\<open>Blocking\<close> reads the options
  \<^verbatim>\<open>blockinner\<close> and \<^verbatim>\<open>blocklevels\<close> and raises \<^verbatim>\<open>KeyError\<close> when one is absent.
\<close>

definition example_Blocking_init :: "options \<Rightarrow> exn + unit" where
  "example_Blocking_init opts =
     (case getitem opts ''blockinner'' of
        Inl e \<Rightarrow> Inl e
      | Inr _ \<Rightarrow> (case getitem opts ''blocklevels'' of Inl e \<Rightarrow> Inl e | Inr _ \<Rightarrow> Inr ()))"

definition example_passes :: "(nat, nat) passes" where
  "example_passes =
     \<lparr>cluster_pass = (\<lambda>c x w. (Suc w, Inr (Suc x))),
      iet_pass = (\<lambda>c w. (Suc w, Inr ())),
      Blocking_init = example_Blocking_init\<rparr>"

definition keyerror_passes :: "(nat, nat) passes" where
  "keyerror_passes =
     \<lparr>cluster_pass = (\<lambda>c x w. case c of Cse \<Rightarrow> (w, Inl (KeyError ''symbol''))
                                      | _ \<Rightarrow> (Suc w, Inr (Suc x))),
      iet_pass = (\<lambda>c w. (Suc w, Inr ())),
      Blocking_init = example_Blocking_init\<rparr>"

definition example_kwargs :: "string list \<Rightarrow> kwargs" where
  "example_kwargs m =
     \<lparr>options = [''mpi'' \<mapsto> PBool True, ''openmp'' \<mapsto> PBool False,
                 ''blocklevels'' \<mapsto> PInt 0, ''cire-repeats-inv'' \<mapsto> PNone,
                 ''cire-repeats-sops'' \<mapsto> PInt 3, ''cire-mincost-inv'' \<mapsto> PInt 0,
                 ''cire-mincost-sops'' \<mapsto> PBool False, ''min-storage'' \<mapsto> PBool False,
                 ''blockinner'' \<mapsto> PBool False],
      platform = \<lparr>simd_reg_size = 64\<rparr>,
      mode = m\<rparr>"

definition min_storage_kwargs :: kwargs where
  "min_storage_kwargs =
     (example_kwargs [])\<lparr>options := (options (example_kwargs []))(''min-storage'' \<mapsto> PInt 1)\<rparr>"

section \<open>An option after normalization\<close>


section \<open>Basic facts\<close>

subsection \<open>Computations\<close>

lemma pure_apply: "pure x s = (s, Inr x)"
  by (simp add: pure_def)

lemma throw_apply: "throw e s = (s, Inl e)"
  by (simp add: throw_def)

lemma lift_apply: "lift r s = (s, r)"
  by (simp add: lift_def)

lemma andthen_apply:
  "andthen m k s = (case m s of (s', Inl e) \<Rightarrow> (s', Inl e) | (s', Inr x) \<Rightarrow> k x s')"
  by (simp add: andthen_def)

lemma andthen_lift_Inr: "andthen (lift (Inr v)) k = k v"
  by (simp add: andthen_def lift_def)

lemma andthen_lift_Inl: "andthen (lift (Inl e)) k = throw e"
  by (simp add: andthen_def lift_def throw_def)

lemma andthen_pure: "andthen (pure x) k = k x"
  by (simp add: andthen_def pure_def)

lemma andthen_pure_right: "andthen m pure = m"
  by (rule ext) (simp add: andthen_apply pure_apply split: prod.splits sum.splits)

lemma andthen_pure_unit: "andthen m (\<lambda>_. pure ()) = (m :: ('w, unit) comp)"
  by (rule ext) (simp add: andthen_apply pure_apply split: prod.splits sum.splits)

lemma andthen_assoc: "andthen (andthen m f) g = andthen m (\<lambda>x. andthen (f x) g)"
  by (rule ext) (simp add: andthen_apply split: prod.splits sum.splits)

lemma call_iet_apply:
  "call_iet lib c (tr, w) = ((tr @ [c], fst (iet_pass lib c w)), snd (iet_pass lib c w))"
  by (simp add: call_iet_def split: prod.splits)

lemma call_cluster_apply:
  "call_cluster lib c x (tr, w) =
     ((tr @ [c], fst (cluster_pass lib c x w)), snd (cluster_pass lib c x w))"
  by (simp add: call_cluster_def split: prod.splits)

lemma pipeline_executor_Nil: "pipeline_executor [] = pure"
  by (rule ext) simp

lemma pipeline_executor_Cons:
  "pipeline_executor (f # fs) = (\<lambda>r. andthen (f r) (pipeline_executor fs))"
  by (rule ext) simp

lemma iet_pipeline_executor_append:
  "iet_pipeline_executor (xs @ ys) =
     andthen (iet_pipeline_executor xs) (\<lambda>_. iet_pipeline_executor ys)"
  by (induction xs) (simp_all add: andthen_pure andthen_assoc)

subsection \<open>The example inputs\<close>

lemma example_kwargs_options:
  "options (example_kwargs m) ''mpi'' = Some (PBool True)"
  "options (example_kwargs m) ''openmp'' = Some (PBool False)"
  "options (example_kwargs m) ''blocklevels'' = Some (PInt 0)"
  "options (example_kwargs m) ''cire-repeats-inv'' = Some PNone"
  "options (example_kwargs m) ''cire-repeats-sops'' = Some (PInt 3)"
  "options (example_kwargs m) ''cire-mincost-inv'' = Some (PInt 0)"
  "options (example_kwargs m) ''cire-mincost-sops'' = Some (PBool False)"
  "options (example_kwargs m) ''min-storage'' = Some (PBool False)"
  "options (example_kwargs m) ''blockinner'' = Some (PBool False)"
  by (simp_all add: example_kwargs_def)

lemma example_kwargs_mode: "as_tuple (mode (example_kwargs m)) = m"
  by (simp add: example_kwargs_def as_tuple_def)

lemma min_storage_kwargs_options:
  "options min_storage_kwargs ''blocklevels'' = Some (PInt 0)"
  "options min_storage_kwargs ''cire-repeats-inv'' = Some PNone"
  "options min_storage_kwargs ''cire-repeats-sops'' = Some (PInt 3)"
  "options min_storage_kwargs ''cire-mincost-inv'' = Some (PInt 0)"
  "options min_storage_kwargs ''cire-mincost-sops'' = Some (PBool False)"
  "options min_storage_kwargs ''min-storage'' = Some (PInt 1)"
  by (simp_all add: min_storage_kwargs_def example_kwargs_options)

lemma example_passes_ok:
  "\<forall>c w. snd (iet_pass example_passes c w) = Inr ()"
  "\<forall>c x w. \<exists>x'. snd (cluster_pass example_passes c x w) = Inr x'"
  "\<forall>c x w k. snd (cluster_pass example_passes c x w) \<noteq> Inl (KeyError k)"
  "\<forall>c w k. snd (iet_pass example_passes c w) \<noteq> Inl (KeyError k)"
  by (simp_all add: example_passes_def)

lemma example_Blocking_init_ok:
  "Blocking_init example_passes (options (example_kwargs m)) = Inr ()"
  by (simp add: example_passes_def example_Blocking_init_def getitem_def example_kwargs_options)

subsection \<open>Normalization\<close>

text \<open>
  With the five tunables present, the inherited normalization returns, and its result is
  the dictionary written out here.
\<close>

lemma noop_normalize_eq:
  assumes "options kw ''blocklevels'' = Some bl"
    and "options kw ''cire-repeats-inv'' = Some ri"
    and "options kw ''cire-repeats-sops'' = Some rs"
    and "options kw ''cire-mincost-inv'' = Some mi"
    and "options kw ''cire-mincost-sops'' = Some ms"
  shows "CPU64NoopOperator_normalize_kwargs c kw =
    Inr (kw\<lparr>options := (options kw)
      (''blocklevels'' \<mapsto> py_or bl (PInt 1),
       ''cire-repeats-inv'' := None,
       ''cire-repeats-sops'' := None,
       ''cire-repeats'' \<mapsto> PDict [(''invariants'', py_or ri (PInt 1)), (''sops'', py_or rs (PInt 5))],
       ''cire-mincost-inv'' := None,
       ''cire-mincost-sops'' := None,
       ''cire-mincost'' \<mapsto> PDict [(''invariants'', py_or mi (PInt 50)), (''sops'', py_or ms (PInt 10))])\<rparr>)"
  using assms
  by (simp add: CPU64NoopOperator_normalize_kwargs_def getitem_def pop_def BLOCK_LEVELS_def
      CIRE_REPEATS_INV_def CIRE_REPEATS_SOPS_def CIRE_MINCOST_INV_def CIRE_MINCOST_SOPS_def)

lemma normalize_kwargs_eq:
  assumes "options kw ''blocklevels'' = Some bl"
    and "options kw ''cire-repeats-inv'' = Some ri"
    and "options kw ''cire-repeats-sops'' = Some rs"
    and "options kw ''cire-mincost-inv'' = Some mi"
    and "options kw ''cire-mincost-sops'' = Some ms"
    and "c \<in> {Intel64FSGOperator, Intel64FSGOpenMPOperator} \<longrightarrow>
           \<not> truthy (dict_get (options kw) ''min-storage'')"
  shows "normalize_kwargs c kw =
    Inr (kw\<lparr>options := (options kw)
      (''blocklevels'' \<mapsto> py_or bl (PInt 1),
       ''cire-repeats-inv'' := None,
       ''cire-repeats-sops'' := None,
       ''cire-repeats'' \<mapsto> PDict [(''invariants'', py_or ri (PInt 1)), (''sops'', py_or rs (PInt 5))],
       ''cire-mincost-inv'' := None,
       ''cire-mincost-sops'' := None,
       ''cire-mincost'' \<mapsto> PDict [(''invariants'', py_or mi (PInt 50)), (''sops'', py_or ms (PInt 10))])\<rparr>)"
  using assms(6) noop_normalize_eq[OF assms(1-5), of c]
  by (cases c) (simp_all add: Intel64FSGOperator_normalize_kwargs_def dict_get_def)

lemma fsg_normalize_reject:
  assumes "options kw ''blocklevels'' = Some bl"
    and "options kw ''cire-repeats-inv'' = Some ri"
    and "options kw ''cire-repeats-sops'' = Some rs"
    and "options kw ''cire-mincost-inv'' = Some mi"
    and "options kw ''cire-mincost-sops'' = Some ms"
    and "c \<in> {Intel64FSGOperator, Intel64FSGOpenMPOperator}"
    and "truthy (dict_get (options kw) ''min-storage'')"
  shows "normalize_kwargs c kw = Inl (InvalidOperator Min_storage_with_advanced_fsg)"
  using assms(6,7) noop_normalize_eq[OF assms(1-5), of c]
  by (auto simp add: Intel64FSGOperator_normalize_kwargs_def dict_get_def)

lemma others_unchanged:
  "k \<notin> {''blocklevels'', ''cire-repeats'', ''cire-mincost'', ''cire-repeats-inv'',
                ''cire-repeats-sops'', ''cire-mincost-inv'', ''cire-mincost-sops''} \<Longrightarrow>
   (d(''blocklevels'' \<mapsto> a,
       ''cire-repeats-inv'' := None,
       ''cire-repeats-sops'' := None,
       ''cire-repeats'' \<mapsto> b,
       ''cire-mincost-inv'' := None,
       ''cire-mincost-sops'' := None,
       ''cire-mincost'' \<mapsto> c)) k = d k"
  by (simp only: fun_upd_apply insert_iff empty_iff de_Morgan_disj if_False simp_thms)

lemma normalized_options:
  assumes "options kw ''blocklevels'' = Some bl"
    and "options kw ''cire-repeats-inv'' = Some ri"
    and "options kw ''cire-repeats-sops'' = Some rs"
    and "options kw ''cire-mincost-inv'' = Some mi"
    and "options kw ''cire-mincost-sops'' = Some ms"
    and "c \<in> {Intel64FSGOperator, Intel64FSGOpenMPOperator} \<longrightarrow>
           \<not> truthy (dict_get (options kw) ''min-storage'')"
  shows "\<exists>d. normalize_kwargs c kw = Inr (kw\<lparr>options := d\<rparr>) \<and>
    d ''blocklevels'' = Some (py_or bl (PInt 1)) \<and>
    d ''cire-repeats'' =
           Some (PDict [(''invariants'', py_or ri (PInt 1)), (''sops'', py_or rs (PInt 5))]) \<and>
    d ''cire-mincost'' =
           Some (PDict [(''invariants'', py_or mi (PInt 50)), (''sops'', py_or ms (PInt 10))]) \<and>
    d ''cire-repeats-inv'' = None \<and> d ''cire-repeats-sops'' = None \<and>
    d ''cire-mincost-inv'' = None \<and> d ''cire-mincost-sops'' = None \<and>
    (\<forall>k. k \<notin> {''blocklevels'', ''cire-repeats'', ''cire-mincost'', ''cire-repeats-inv'',
                ''cire-repeats-sops'', ''cire-mincost-inv'', ''cire-mincost-sops''} \<longrightarrow>
          d k = options kw k)"
proof -
  let ?d = "(options kw)
      (''blocklevels'' \<mapsto> py_or bl (PInt 1),
       ''cire-repeats-inv'' := None,
       ''cire-repeats-sops'' := None,
       ''cire-repeats'' \<mapsto> PDict [(''invariants'', py_or ri (PInt 1)), (''sops'', py_or rs (PInt 5))],
       ''cire-mincost-inv'' := None,
       ''cire-mincost-sops'' := None,
       ''cire-mincost'' \<mapsto> PDict [(''invariants'', py_or mi (PInt 50)), (''sops'', py_or ms (PInt 10))])"
  have eq: "normalize_kwargs c kw = Inr (kw\<lparr>options := ?d\<rparr>)"
    by (rule normalize_kwargs_eq[OF assms])
  have 1: "?d ''blocklevels'' = Some (py_or bl (PInt 1))" by simp
  have 2: "?d ''cire-repeats'' =
     Some (PDict [(''invariants'', py_or ri (PInt 1)), (''sops'', py_or rs (PInt 5))])" by simp
  have 3: "?d ''cire-mincost'' =
     Some (PDict [(''invariants'', py_or mi (PInt 50)), (''sops'', py_or ms (PInt 10))])" by simp
  have 4: "?d ''cire-repeats-inv'' = None" by simp
  have 5: "?d ''cire-repeats-sops'' = None" by simp
  have 6: "?d ''cire-mincost-inv'' = None" by simp
  have 7: "?d ''cire-mincost-sops'' = None" by simp
  have 8: "\<forall>k. k \<notin> {''blocklevels'', ''cire-repeats'', ''cire-mincost'', ''cire-repeats-inv'',
                ''cire-repeats-sops'', ''cire-mincost-inv'', ''cire-mincost-sops''} \<longrightarrow>
          ?d k = options kw k"
    by (intro allI impI) (rule others_unchanged)
  from eq 1 2 3 4 5 6 7 8 show ?thesis
    by (intro exI[of _ ?d] conjI)
qed

text \<open>
  \<^verbatim>\<open>options['blocklevels']\<close> has no default: without the key the normalization of every class
  raises \<^verbatim>\<open>KeyError\<close>. The statements about normalization below therefore take the five
  tunables to be present, with \<^verbatim>\<open>None\<close> as the value of one that is not set.
\<close>

lemma normalize_kwargs_absent_key:
  assumes "options kw ''blocklevels'' = None"
  shows "normalize_kwargs c kw = Inl (KeyError ''blocklevels'')"
  using assms
  by (cases c)
     (simp_all add: Intel64FSGOperator_normalize_kwargs_def CPU64NoopOperator_normalize_kwargs_def
        getitem_def)

subsection \<open>The two mappers and the two loops\<close>

lemma iet_mapper_cases:
  assumes "make_iet_passes_mapper lib kw = Inr pm" and "pm t = Some f"
  shows "\<exists>c. f = call_iet lib c \<and> c \<notin> {Place_definitions, Place_casts}"
  using assms
  by (auto simp add: make_iet_passes_mapper_def getitem_def split: option.splits if_splits)

lemma iet_mapper_entries:
  assumes "options kw ''mpi'' = Some mpi"
  shows "\<exists>pm. make_iet_passes_mapper lib kw = Inr pm \<and>
     pm ''mpi'' = Some (call_iet lib (Mpiize mpi)) \<and>
     pm ''openmp'' = Some (call_iet lib Make_parallel) \<and>
     pm ''blocking'' = Some (call_iet lib Relax_incr_dimensions) \<and>
     dom pm = {''denormals'', ''optcomms'', ''blocking'', ''openmp'', ''mpi'', ''simd'',
               ''prodders''}"
  using assms
  by (auto simp add: make_iet_passes_mapper_def getitem_def)

lemma clusters_mapper_cases:
  assumes "make_clusters_passes_mapper lib kw = Inr pm" and "pm t = Some f"
  shows "(\<exists>c. f = call_cluster lib c) \<or>
         (\<exists>c1 c2. f = (\<lambda>i. andthen (call_cluster lib c1 i) (call_cluster lib c2)))"
proof -
  from assms(1) have "pm =
     [''blocking'' \<mapsto> call_cluster lib (Blocking_process (options kw)),
      ''factorize'' \<mapsto> call_cluster lib Factorize,
      ''fuse'' \<mapsto> call_cluster lib (Fuse False),
      ''lift'' \<mapsto> (\<lambda>i. andthen (call_cluster lib
                                 (Cire ''invariants'' (options kw) (platform kw)) i)
                              (call_cluster lib Lift_process)),
      ''cire-sops'' \<mapsto> call_cluster lib (Cire ''sops'' (options kw) (platform kw)),
      ''cse'' \<mapsto> call_cluster lib Cse,
      ''opt-pows'' \<mapsto> call_cluster lib Optimize_pows,
      ''topofuse'' \<mapsto> call_cluster lib (Fuse True)]"
    by (cases "Blocking_init lib (options kw)")
       (simp_all add: make_clusters_passes_mapper_def)
  with assms(2) show ?thesis
    by (auto split: if_splits)
qed

lemma clusters_mapper_entries:
  assumes "Blocking_init lib (options kw) = Inr u"
  shows "\<exists>pm. make_clusters_passes_mapper lib kw = Inr pm \<and>
     pm ''blocking'' = Some (call_cluster lib (Blocking_process (options kw))) \<and>
     dom pm = {''blocking'', ''factorize'', ''fuse'', ''lift'', ''cire-sops'', ''cse'',
               ''opt-pows'', ''topofuse''}"
  using assms
  by (auto simp add: make_clusters_passes_mapper_def)

lemma clusters_mapper_raises:
  assumes "Blocking_init lib (options kw) = Inl e"
  shows "CustomOperator_specialize_clusters lib kw clusters s = (s, Inl e)"
  using assms
  by (simp add: CustomOperator_specialize_clusters_def Let_def make_clusters_passes_mapper_def
      andthen_lift_Inl throw_apply)

lemma clusters_mapper_no_keyerror:
  assumes lib: "\<forall>c x w k. snd (cluster_pass lib c x w) \<noteq> Inl (KeyError k)"
    and pm: "make_clusters_passes_mapper lib kw = Inr pm" and f: "pm t = Some f"
  shows "snd (f x s) \<noteq> Inl (KeyError k)"
proof -
  obtain tr w where s: "s = (tr, w)" by (cases s)
  from clusters_mapper_cases[OF pm f] show ?thesis
  proof
    assume "\<exists>c. f = call_cluster lib c"
    with lib s show ?thesis by (auto simp add: call_cluster_apply)
  next
    assume "\<exists>c1 c2. f = (\<lambda>i. andthen (call_cluster lib c1 i) (call_cluster lib c2))"
    then obtain c1 c2 where "f = (\<lambda>i. andthen (call_cluster lib c1 i) (call_cluster lib c2))"
      by blast
    with lib s show ?thesis
      by (auto simp add: andthen_apply call_cluster_apply split: sum.splits)
  qed
qed

lemma iet_mapper_no_keyerror:
  assumes lib: "\<forall>c w k. snd (iet_pass lib c w) \<noteq> Inl (KeyError k)"
    and pm: "make_iet_passes_mapper lib kw = Inr pm" and f: "pm t = Some f"
  shows "snd (f s) \<noteq> Inl (KeyError k)"
proof -
  obtain tr w where s: "s = (tr, w)" by (cases s)
  from iet_mapper_cases[OF pm f] obtain c where "f = call_iet lib c" by blast
  with lib s show ?thesis by (simp add: call_iet_apply)
qed

lemma clusters_loop_refines:
  assumes "\<And>t f x s k. pm t = Some f \<Longrightarrow> snd (f x s) \<noteq> Inl (KeyError k)"
  shows "clusters_call_passes pm ts x s = pipeline_executor (List.map_filter pm ts) x s"
proof (induction ts arbitrary: x s)
  case Nil
  show ?case by (simp add: map_filter_simps)
next
  case (Cons t ts)
  show ?case
  proof (cases "pm t")
    case None
    with Cons show ?thesis by (simp add: map_filter_simps)
  next
    case (Some f)
    obtain s' r where f: "f x s = (s', r)"
      by (metis prod.exhaust)
    with assms[OF Some, of x s] have nk: "\<And>k. r \<noteq> Inl (KeyError k)"
      by simp
    show ?thesis
    proof (cases r)
      case (Inl e)
      with nk have "\<forall>k. e \<noteq> KeyError k" by blast
      with Inl f Some show ?thesis
        by (cases e) (simp_all add: map_filter_simps andthen_apply)
    next
      case (Inr y)
      with f Some Cons.IH[of y s'] show ?thesis
        by (simp add: map_filter_simps andthen_apply)
    qed
  qed
qed

lemma iet_loop_refines:
  assumes "\<And>t f s k. pm t = Some f \<Longrightarrow> snd (f s) \<noteq> Inl (KeyError k)"
  shows "iet_call_passes pm ts s = iet_pipeline_executor (List.map_filter pm ts) s"
proof (induction ts arbitrary: s)
  case Nil
  show ?case by (simp add: map_filter_simps)
next
  case (Cons t ts)
  show ?case
  proof (cases "pm t")
    case None
    with Cons show ?thesis by (simp add: map_filter_simps)
  next
    case (Some f)
    obtain s' r where f: "f s = (s', r)"
      by (metis prod.exhaust)
    with assms[OF Some, of s] have nk: "\<And>k. r \<noteq> Inl (KeyError k)"
      by simp
    show ?thesis
    proof (cases r)
      case (Inl e)
      with nk have "\<forall>k. e \<noteq> KeyError k" by blast
      with Inl f Some show ?thesis
        by (cases e) (simp_all add: map_filter_simps andthen_apply)
    next
      case (Inr y)
      with f Some Cons.IH[of s'] show ?thesis
        by (simp add: map_filter_simps andthen_apply)
    qed
  qed
qed


lemma clusters_loop_propagates:
  assumes "pm t = Some f" and "f x s = (s', Inl e)" and "\<forall>k. e \<noteq> KeyError k"
  shows "clusters_call_passes pm (t # ts) x s = (s', Inl e)"
  using assms by (cases e) simp_all

lemma iet_loop_propagates:
  assumes "pm t = Some f" and "f s = (s', Inl e)" and "\<forall>k. e \<noteq> KeyError k"
  shows "iet_call_passes pm (t # ts) s = (s', Inl e)"
  using assms by (cases e) simp_all

lemma clusters_loop_swallows:
  assumes "pm t = Some f" and "f x s = (s', Inl (KeyError k))"
  shows "clusters_call_passes pm (t # ts) x s = clusters_call_passes pm ts x s'"
  using assms by simp

lemma iet_loop_swallows:
  assumes "pm t = Some f" and "f s = (s', Inl (KeyError k))"
  shows "iet_call_passes pm (t # ts) s = iet_call_passes pm ts s'"
  using assms by simp

lemma custom_clusters_eq:
  assumes "\<forall>c x w k. snd (cluster_pass lib c x w) \<noteq> Inl (KeyError k)"
    and "make_clusters_passes_mapper lib kw = Inr cpm"
  shows "CustomOperator_specialize_clusters lib kw =
           pipeline_executor (List.map_filter cpm (as_tuple (mode kw)))"
  unfolding CustomOperator_specialize_clusters_def Let_def assms(2) andthen_lift_Inr
  by (intro ext clusters_loop_refines clusters_mapper_no_keyerror[OF assms])

lemma custom_iet_eq:
  assumes lib: "\<forall>c w k. snd (iet_pass lib c w) \<noteq> Inl (KeyError k)"
    and ipm: "make_iet_passes_mapper lib kw = Inr ipm"
    and mpi: "options kw ''mpi'' = Some mpi"
    and openmp: "options kw ''openmp'' = Some openmp"
  shows "CustomOperator_specialize_iet lib kw =
       iet_pipeline_executor
         (List.map_filter ipm (as_tuple (mode kw))
          @ (if ''mpi'' \<notin> set (as_tuple (mode kw)) \<and> truthy mpi
             then [call_iet lib (Mpiize mpi)] else [])
          @ (if ''openmp'' \<notin> set (as_tuple (mode kw)) \<and> truthy openmp
             then [call_iet lib Make_parallel] else [])
          @ [call_iet lib Place_definitions, call_iet lib Place_casts])"
proof -
  from ipm mpi have pm_mpi: "ipm ''mpi'' = Some (call_iet lib (Mpiize mpi))"
    and pm_openmp: "ipm ''openmp'' = Some (call_iet lib Make_parallel)"
    by (auto simp add: make_iet_passes_mapper_def getitem_def)
  have loop: "iet_call_passes ipm (as_tuple (mode kw)) =
           iet_pipeline_executor (List.map_filter ipm (as_tuple (mode kw)))"
    by (intro ext iet_loop_refines iet_mapper_no_keyerror[OF lib ipm])
  have g: "getitem (options kw) ''mpi'' = Inr mpi" "getitem (options kw) ''openmp'' = Inr openmp"
    using mpi openmp by (simp_all add: getitem_def)
  show ?thesis
    unfolding CustomOperator_specialize_iet_def Let_def ipm andthen_lift_Inr loop
      iet_pipeline_executor_append g
    by (simp add: mapper_call_def pm_mpi pm_openmp andthen_pure andthen_pure_unit
        andthen_pure_right)
qed

lemma custom_clusters_blocking_run:
  assumes "Blocking_init lib (options kw) = Inr ()"
  shows "CustomOperator_specialize_clusters lib (kw\<lparr>mode := [''blocking'']\<rparr>) clusters (tr, w) =
     ((tr @ [Blocking_process (options kw)],
       fst (cluster_pass lib (Blocking_process (options kw)) clusters w)),
      (case snd (cluster_pass lib (Blocking_process (options kw)) clusters w) of
         Inl (KeyError k) \<Rightarrow> Inr clusters
       | r \<Rightarrow> r))"
proof -
  let ?kw = "kw\<lparr>mode := [''blocking'']\<rparr>"
  from assms have "Blocking_init lib (options ?kw) = Inr ()" by simp
  from clusters_mapper_entries[OF this] obtain pm where
    pm: "make_clusters_passes_mapper lib ?kw = Inr pm"
    and b: "pm ''blocking'' = Some (call_cluster lib (Blocking_process (options kw)))"
    by auto
  have m: "as_tuple (mode ?kw) = [''blocking'']"
    by (simp add: as_tuple_def)
  show ?thesis
    unfolding CustomOperator_specialize_clusters_def Let_def pm andthen_lift_Inr m
    by (simp add: b call_cluster_apply pure_apply split: sum.splits exn.splits)
qed

subsection \<open>Traces\<close>

lemma emits_pure: "emits A (pure x)"
  by (simp add: emits_def pure_def)

lemma emits_throw: "emits A (throw e)"
  by (simp add: emits_def throw_def)

lemma emits_lift: "emits A (lift r)"
  by (simp add: emits_def lift_def)

lemma emits_call_iet: "c \<in> A \<Longrightarrow> emits A (call_iet lib c)"
  by (simp add: emits_def call_iet_apply)

lemma emits_call_cluster: "c \<in> A \<Longrightarrow> emits A (call_cluster lib c x)"
  by (simp add: emits_def call_cluster_apply)

lemma emits_andthen:
  assumes "emits A m" and "\<And>x. emits A (k x)"
  shows "emits A (andthen m k)"
  unfolding emits_def
proof (intro allI impI)
  fix tr w tr' w' r
  assume run: "andthen m k (tr, w) = ((tr', w'), r)"
  obtain tr1 w1 r1 where m: "m (tr, w) = ((tr1, w1), r1)"
    by (metis prod.exhaust)
  from assms(1) m obtain cs1 where cs1: "tr1 = tr @ cs1" "set cs1 \<subseteq> A"
    unfolding emits_def by blast
  show "\<exists>cs. tr' = tr @ cs \<and> set cs \<subseteq> A"
  proof (cases r1)
    case (Inl e)
    with run m have "tr' = tr1" by (simp add: andthen_apply)
    with cs1 show ?thesis by blast
  next
    case (Inr x)
    with run m have "k x (tr1, w1) = ((tr', w'), r)" by (simp add: andthen_apply)
    with assms(2)[of x] obtain cs2 where "tr' = tr1 @ cs2" "set cs2 \<subseteq> A"
      unfolding emits_def by blast
    with cs1 have "tr' = tr @ (cs1 @ cs2) \<and> set (cs1 @ cs2) \<subseteq> A" by simp
    then show ?thesis by blast
  qed
qed

lemma emits_if: "emits A m \<Longrightarrow> emits A n \<Longrightarrow> emits A (if b then m else n)"
  by simp

lemma emits_mapper_call:
  "(\<And>f. pm k = Some f \<Longrightarrow> emits A f) \<Longrightarrow> emits A (mapper_call pm k)"
  by (cases "pm k") (simp_all add: mapper_call_def emits_throw)


lemmas emits_rules = emits_pure emits_throw emits_lift emits_call_iet emits_call_cluster
  emits_andthen emits_if

lemma andthen_trace_extends:
  assumes "\<And>x. emits UNIV (k x)"
  shows "\<exists>cs. fst (fst (andthen m k s)) = fst (fst (m s)) @ cs"
proof -
  obtain tr1 w1 r1 where m: "m s = ((tr1, w1), r1)"
    by (metis prod.exhaust)
  show ?thesis
  proof (cases r1)
    case (Inl e)
    with m show ?thesis by (simp add: andthen_apply)
  next
    case (Inr x)
    obtain tr2 w2 r2 where k: "k x (tr1, w1) = ((tr2, w2), r2)"
      by (metis prod.exhaust)
    with assms[of x] obtain cs where "tr2 = tr1 @ cs"
      unfolding emits_def by blast
    with m Inr k show ?thesis by (simp add: andthen_apply)
  qed
qed








lemma runs_ok_pure: "runs_ok (pure x) []"
  by (simp add: runs_ok_def pure_apply)

lemma runs_ok_call_cluster:
  assumes "\<forall>c x w. \<exists>x'. snd (cluster_pass lib c x w) = Inr x'"
    and "\<And>x'. runs_ok (k x') cs"
  shows "runs_ok (andthen (call_cluster lib c x) k) (c # cs)"
  unfolding runs_ok_def
proof (intro allI)
  fix tr w
  from assms(1) obtain x' where "snd (cluster_pass lib c x w) = Inr x'"
    by blast
  then have "andthen (call_cluster lib c x) k (tr, w) =
               k x' (tr @ [c], fst (cluster_pass lib c x w))"
    by (simp add: andthen_apply call_cluster_apply)
  moreover from assms(2)[of x'] obtain w' y where
    "k x' (tr @ [c], fst (cluster_pass lib c x w)) = (((tr @ [c]) @ cs, w'), Inr y)"
    unfolding runs_ok_def by blast
  ultimately show "\<exists>w' y. andthen (call_cluster lib c x) k (tr, w) = ((tr @ c # cs, w'), Inr y)"
    by simp
qed

lemma runs_ok_lift_Inr:
  assumes "r = Inr v" and "runs_ok (k v) cs"
  shows "runs_ok (andthen (lift r) k) cs"
  using assms by (simp add: andthen_lift_Inr)

lemma base_clusters_runs_ok:
  assumes "\<forall>c x w. \<exists>x'. snd (cluster_pass lib c x w) = Inr x'"
    and "Blocking_init lib (options kw) = Inr ()"
  shows "runs_ok (CPU64Operator_specialize_clusters lib kw clusters)
     [Fuse True, Cire ''invariants'' (options kw) (platform kw), Lift_process,
      Blocking_process (options kw),
      Extract_increments, Cire ''sops'' (options kw) (platform kw), Factorize, Optimize_pows,
      Cse, Fuse False, Eliminate_arrays]"
  unfolding CPU64Operator_specialize_clusters_def
  by (intro runs_ok_call_cluster[OF assms(1)] runs_ok_lift_Inr[OF assms(2)] runs_ok_pure)

lemma fsg_clusters_runs_ok:
  assumes "\<forall>c x w. \<exists>x'. snd (cluster_pass lib c x w) = Inr x'"
    and "Blocking_init lib (options kw) = Inr ()"
  shows "runs_ok (Intel64FSGOperator_specialize_clusters lib kw clusters)
     [Fuse True, Cire ''invariants'' (options kw) (platform kw), Lift_process,
      Extract_increments, Cire ''sops'' (options kw) (platform kw), Factorize, Optimize_pows,
      Cse, Fuse False, Eliminate_arrays,
      Blocking_process (options kw)]"
  unfolding Intel64FSGOperator_specialize_clusters_def
  by (intro runs_ok_call_cluster[OF assms(1)] runs_ok_lift_Inr[OF assms(2)] runs_ok_pure)

lemma base_clusters_eq:
  "CPU64Operator_specialize_clusters lib kw =
     pipeline_executor
       ([call_cluster lib (Fuse True),
         call_cluster lib (Cire ''invariants'' (options kw) (platform kw)),
         call_cluster lib Lift_process]
        @ [\<lambda>clusters. andthen (lift (Blocking_init lib (options kw)))
                        (\<lambda>_. call_cluster lib (Blocking_process (options kw)) clusters)]
        @ [call_cluster lib Extract_increments,
           call_cluster lib (Cire ''sops'' (options kw) (platform kw)),
           call_cluster lib Factorize,
           call_cluster lib Optimize_pows,
           call_cluster lib Cse,
           call_cluster lib (Fuse False),
           call_cluster lib Eliminate_arrays])"
  by (rule ext)
     (simp add: CPU64Operator_specialize_clusters_def pipeline_executor_Cons
        pipeline_executor_Nil andthen_assoc)

lemma fsg_clusters_eq:
  "Intel64FSGOperator_specialize_clusters lib kw =
     pipeline_executor
       ([call_cluster lib (Fuse True),
         call_cluster lib (Cire ''invariants'' (options kw) (platform kw)),
         call_cluster lib Lift_process]
        @ [call_cluster lib Extract_increments,
           call_cluster lib (Cire ''sops'' (options kw) (platform kw)),
           call_cluster lib Factorize,
           call_cluster lib Optimize_pows,
           call_cluster lib Cse,
           call_cluster lib (Fuse False),
           call_cluster lib Eliminate_arrays]
        @ [\<lambda>clusters. andthen (lift (Blocking_init lib (options kw)))
                        (\<lambda>_. call_cluster lib (Blocking_process (options kw)) clusters)])"
  by (rule ext)
     (simp add: Intel64FSGOperator_specialize_clusters_def pipeline_executor_Cons
        pipeline_executor_Nil andthen_assoc)

lemma fsg_base_traces:
  assumes "\<forall>c x w. \<exists>x'. snd (cluster_pass lib c x w) = Inr x'"
    and "Blocking_init lib (options kw) = Inr ()"
  shows "\<exists>w1 x1 w2 x2.
     CPU64Operator_specialize_clusters lib kw clusters (tr, w) =
       ((tr @ [Fuse True, Cire ''invariants'' (options kw) (platform kw), Lift_process]
            @ [Blocking_process (options kw)]
            @ [Extract_increments, Cire ''sops'' (options kw) (platform kw), Factorize,
               Optimize_pows, Cse, Fuse False, Eliminate_arrays], w1), Inr x1) \<and>
     Intel64FSGOperator_specialize_clusters lib kw clusters (tr, w) =
       ((tr @ [Fuse True, Cire ''invariants'' (options kw) (platform kw), Lift_process]
            @ [Extract_increments, Cire ''sops'' (options kw) (platform kw), Factorize,
               Optimize_pows, Cse, Fuse False, Eliminate_arrays]
            @ [Blocking_process (options kw)], w2), Inr x2)"
  using base_clusters_runs_ok[OF assms, of clusters]
    fsg_clusters_runs_ok[OF assms, of clusters]
  unfolding runs_ok_def append.simps by metis

lemma custom_iet_blocking_trace:
  assumes "options kw ''mpi'' = Some mpi"
  shows "\<exists>rest. fst (fst (CustomOperator_specialize_iet lib (kw\<lparr>mode := [''blocking'']\<rparr>) (tr, w))) =
           tr @ [Relax_incr_dimensions] @ rest"
proof -
  let ?kw = "kw\<lparr>mode := [''blocking'']\<rparr>"
  from assms have "options ?kw ''mpi'' = Some mpi" by simp
  from iet_mapper_entries[OF this, of lib] obtain pm where
    pm: "make_iet_passes_mapper lib ?kw = Inr pm"
    and pm_blocking: "pm ''blocking'' = Some (call_iet lib Relax_incr_dimensions)"
    by blast
  have f: "\<And>t f. pm t = Some f \<Longrightarrow> emits UNIV f"
    using iet_mapper_cases[OF pm] by (auto intro: emits_call_iet)
  have mc: "\<And>k. emits UNIV (mapper_call pm k)"
    by (rule emits_mapper_call) (rule f)
  have loop: "fst (fst (iet_call_passes pm [''blocking''] (tr, w))) = tr @ [Relax_incr_dimensions]"
    by (simp add: pm_blocking call_iet_apply pure_apply split: sum.splits exn.splits)
  have m: "as_tuple (mode ?kw) = [''blocking'']"
    by (simp add: as_tuple_def)
  have "\<exists>cs. fst (fst (CustomOperator_specialize_iet lib ?kw (tr, w))) =
          fst (fst (iet_call_passes pm [''blocking''] (tr, w))) @ cs"
    unfolding CustomOperator_specialize_iet_def Let_def pm andthen_lift_Inr m
    by (rule andthen_trace_extends) (simp add: emits_rules mc)
  with loop show ?thesis by simp
qed


lemma returns_pure: "returns (pure x)"
  by (simp add: returns_def pure_apply)

lemma returns_call_iet:
  "\<forall>c w. snd (iet_pass lib c w) = Inr () \<Longrightarrow> returns (call_iet lib c)"
  by (simp add: returns_def call_iet_def split: prod.splits) (metis snd_conv)

lemma returns_andthen:
  assumes "returns m" and "\<And>x. returns (k x)"
  shows "returns (andthen m k)"
  unfolding returns_def
proof
  fix s
  from assms(1) obtain s1 x where "m s = (s1, Inr x)"
    unfolding returns_def by blast
  moreover from assms(2)[of x] obtain s2 y where "k x s1 = (s2, Inr y)"
    unfolding returns_def by blast
  ultimately show "\<exists>s' y. andthen m k s = (s', Inr y)"
    by (simp add: andthen_apply)
qed

lemma returns_if: "returns m \<Longrightarrow> returns n \<Longrightarrow> returns (if b then m else n)"
  by simp

lemma returns_getitem: "d k = Some v \<Longrightarrow> returns (lift (getitem d k))"
  by (simp add: returns_def lift_apply getitem_def)

lemmas returns_rules = returns_pure returns_call_iet returns_andthen returns_if returns_getitem







section \<open>The vocabulary check of the custom operator\<close>

text \<open>
  Claim C1. When \<^verbatim>\<open>mode\<close> holds a token outside \<open>known_passes\<close>, \<^verbatim>\<open>CustomOperator._build\<close>
  raises \<open>InvalidOperator\<close> at once: the inherited \<^verbatim>\<open>_build\<close>, whatever it is, is not run,
  and the state is the one before the call, so the trace of invoked passes has not grown
  by a single call.
\<close>

theorem custom_build_rejects_unknown_token:
  assumes "\<exists>t \<in> set (as_tuple (mode kw)). t \<notin> set known_passes"
  shows "CustomOperator_build super_build expressions kw (tr, w) =
           ((tr, w), Inl (InvalidOperator (Unknown_passes (as_tuple (mode kw)))))"
  using assms
  by (simp add: CustomOperator_build_def Let_def list_ex_iff throw_apply del: set_simps)

theorem custom_build_rejects_unknown_token_witness:
  "(\<exists>t \<in> set (as_tuple (mode (example_kwargs [''fuse'', ''bogus'']))). t \<notin> set known_passes) \<and>
   CustomOperator_build (\<lambda>e kw. call_iet example_passes Place_casts) ()
       (example_kwargs [''fuse'', ''bogus'']) ([], 0) =
     (([], 0), Inl (InvalidOperator (Unknown_passes [''fuse'', ''bogus''])))"
proof -
  have h: "\<exists>t \<in> set (as_tuple (mode (example_kwargs [''fuse'', ''bogus'']))). t \<notin> set known_passes"
    by (simp add: example_kwargs_mode known_passes_def)
  from custom_build_rejects_unknown_token[OF h,
      of "\<lambda>e kw. call_iet example_passes Place_casts" "()" "[]" 0] h
  show ?thesis by (simp only: example_kwargs_mode simp_thms)
qed

section \<open>FSG rejects min-storage\<close>

text \<open>
  Claim C2. For the two FSG classes, with the five tunables present: when
  \<^verbatim>\<open>options.get('min-storage')\<close> is truthy, normalization raises \<open>InvalidOperator\<close>, and any
  computation sequenced after normalization is not run and leaves the state, hence the
  trace of invoked passes, as it was; when the option is absent or falsy, normalization
  returns.
\<close>

theorem fsg_normalize_kwargs_min_storage:
  assumes "options kw ''blocklevels'' = Some bl"
    and "options kw ''cire-repeats-inv'' = Some ri"
    and "options kw ''cire-repeats-sops'' = Some rs"
    and "options kw ''cire-mincost-inv'' = Some mi"
    and "options kw ''cire-mincost-sops'' = Some ms"
    and "c \<in> {Intel64FSGOperator, Intel64FSGOpenMPOperator}"
  shows "if truthy (dict_get (options kw) ''min-storage'')
         then normalize_kwargs c kw = Inl (InvalidOperator Min_storage_with_advanced_fsg) \<and>
              (\<forall>build s. andthen (lift (normalize_kwargs c kw)) build s =
                  (s, Inl (InvalidOperator Min_storage_with_advanced_fsg)))
         else \<exists>kw'. normalize_kwargs c kw = Inr kw'"
proof (cases "truthy (dict_get (options kw) ''min-storage'')")
  case True
  have "normalize_kwargs c kw = Inl (InvalidOperator Min_storage_with_advanced_fsg)"
    by (rule fsg_normalize_reject[OF assms True])
  with True show ?thesis
    by (simp add: andthen_def lift_def)
next
  case False
  then have "c \<in> {Intel64FSGOperator, Intel64FSGOpenMPOperator} \<longrightarrow>
           \<not> truthy (dict_get (options kw) ''min-storage'')"
    by simp
  from normalize_kwargs_eq[OF assms(1-5) this] False show ?thesis
    by simp
qed

theorem fsg_normalize_kwargs_min_storage_witness:
  "Intel64FSGOperator \<in> {Intel64FSGOperator, Intel64FSGOpenMPOperator} \<and>
   options min_storage_kwargs ''blocklevels'' = Some (PInt 0) \<and>
   options min_storage_kwargs ''cire-repeats-inv'' = Some PNone \<and>
   options min_storage_kwargs ''cire-repeats-sops'' = Some (PInt 3) \<and>
   options min_storage_kwargs ''cire-mincost-inv'' = Some (PInt 0) \<and>
   options min_storage_kwargs ''cire-mincost-sops'' = Some (PBool False) \<and>
   truthy (dict_get (options min_storage_kwargs) ''min-storage'') \<and>
   normalize_kwargs Intel64FSGOperator min_storage_kwargs =
     Inl (InvalidOperator Min_storage_with_advanced_fsg) \<and>
   \<not> truthy (dict_get (options (example_kwargs [])) ''min-storage'') \<and>
   (\<exists>kw'. normalize_kwargs Intel64FSGOperator (example_kwargs []) = Inr kw')"
proof -
  have c: "Intel64FSGOperator \<in> {Intel64FSGOperator, Intel64FSGOpenMPOperator}"
    by simp
  have t: "truthy (dict_get (options min_storage_kwargs) ''min-storage'')"
    by (simp add: dict_get_def min_storage_kwargs_options)
  have f: "\<not> truthy (dict_get (options (example_kwargs [])) ''min-storage'')"
    by (simp add: dict_get_def example_kwargs_options)
  from fsg_normalize_kwargs_min_storage[OF min_storage_kwargs_options(1-5) c] t
  have "normalize_kwargs Intel64FSGOperator min_storage_kwargs =
          Inl (InvalidOperator Min_storage_with_advanced_fsg) \<and>
        (\<forall>build s. andthen (lift (normalize_kwargs Intel64FSGOperator min_storage_kwargs)) build s =
                  (s, Inl (InvalidOperator Min_storage_with_advanced_fsg)))"
    by (simp only: if_True)
  then have r: "normalize_kwargs Intel64FSGOperator min_storage_kwargs =
          Inl (InvalidOperator Min_storage_with_advanced_fsg)"
    by (rule conjunct1)
  from fsg_normalize_kwargs_min_storage[OF example_kwargs_options(3-7)[of "[]"] c] f
  have a: "\<exists>kw'. normalize_kwargs Intel64FSGOperator (example_kwargs []) = Inr kw'"
    by (simp only: if_False)
  show ?thesis
    by (intro conjI c min_storage_kwargs_options(1-5) t r f a)
qed

section \<open>Forced MPI and OpenMP in the custom IET stage\<close>



section \<open>The custom loops keep the caller's order\<close>

text \<open>
  Claim C4. Let no pass raise \<^verbatim>\<open>KeyError\<close> from inside, let \<^verbatim>\<open>Blocking(options)\<close> be built,
  and let the options \<^verbatim>\<open>mpi\<close> and \<^verbatim>\<open>openmp\<close> be present. Then both mappers are built, and
  \<^item> \<^verbatim>\<open>CustomOperator._specialize_clusters\<close> is the pipeline executor applied to the
    functions of those tokens of \<^verbatim>\<open>mode\<close> that the cluster mapper knows, in the order of
    \<^verbatim>\<open>mode\<close>, each output being the input of the next;
  \<^item> \<^verbatim>\<open>CustomOperator._specialize_iet\<close> is the IET executor applied to the functions of the
    tokens of \<^verbatim>\<open>mode\<close> that the IET mapper knows, in the order of \<^verbatim>\<open>mode\<close>, followed by the
    forced calls and the two placement steps;
  \<^item> a token that the mapper of a stage does not know is skipped by that stage: the method
    with the token anywhere in \<^verbatim>\<open>mode\<close> is the method without it, and on a \<^verbatim>\<open>mode\<close> of this
    token alone the cluster stage returns its input, in the state it started from.
\<close>

theorem custom_passes_in_caller_order:
  assumes "\<forall>c x w k. snd (cluster_pass lib c x w) \<noteq> Inl (KeyError k)"
    and "\<forall>c w k. snd (iet_pass lib c w) \<noteq> Inl (KeyError k)"
    and "Blocking_init lib (options kw) = Inr ()"
    and "options kw ''mpi'' = Some mpi"
    and "options kw ''openmp'' = Some openmp"
  shows "\<exists>cpm ipm.
     make_clusters_passes_mapper lib kw = Inr cpm \<and>
     make_iet_passes_mapper lib kw = Inr ipm \<and>
     CustomOperator_specialize_clusters lib kw =
       pipeline_executor (List.map_filter cpm (as_tuple (mode kw))) \<and>
     CustomOperator_specialize_iet lib kw =
       iet_pipeline_executor
         (List.map_filter ipm (as_tuple (mode kw))
          @ (if ''mpi'' \<notin> set (as_tuple (mode kw)) \<and> truthy mpi
             then [call_iet lib (Mpiize mpi)] else [])
          @ (if ''openmp'' \<notin> set (as_tuple (mode kw)) \<and> truthy openmp
             then [call_iet lib Make_parallel] else [])
          @ [call_iet lib Place_definitions, call_iet lib Place_casts]) \<and>
     (\<forall>t xs ys. cpm t = None \<longrightarrow>
        CustomOperator_specialize_clusters lib (kw\<lparr>mode := xs @ [t] @ ys\<rparr>) =
        CustomOperator_specialize_clusters lib (kw\<lparr>mode := xs @ ys\<rparr>)) \<and>
     (\<forall>t xs ys. ipm t = None \<longrightarrow>
        CustomOperator_specialize_iet lib (kw\<lparr>mode := xs @ [t] @ ys\<rparr>) =
        CustomOperator_specialize_iet lib (kw\<lparr>mode := xs @ ys\<rparr>)) \<and>
     (\<forall>t clusters s. cpm t = None \<longrightarrow>
        CustomOperator_specialize_clusters lib (kw\<lparr>mode := [t]\<rparr>) clusters s =
          (s, Inr clusters))"
proof -
  from clusters_mapper_entries[OF assms(3)] obtain cpm where
    cpm: "make_clusters_passes_mapper lib kw = Inr cpm"
    by blast
  from iet_mapper_entries[OF assms(4), of lib] obtain ipm where
    ipm: "make_iet_passes_mapper lib kw = Inr ipm"
    and ipm_mpi: "ipm ''mpi'' = Some (call_iet lib (Mpiize mpi))"
    and ipm_openmp: "ipm ''openmp'' = Some (call_iet lib Make_parallel)"
    by blast
  have "\<And>m. make_clusters_passes_mapper lib (kw\<lparr>mode := m\<rparr>) =
             make_clusters_passes_mapper lib kw"
    by (cases "Blocking_init lib (options kw)")
       (simp_all add: make_clusters_passes_mapper_def)
  with cpm have cpm': "\<And>m. make_clusters_passes_mapper lib (kw\<lparr>mode := m\<rparr>) = Inr cpm"
    by simp
  have "\<And>m. make_iet_passes_mapper lib (kw\<lparr>mode := m\<rparr>) = make_iet_passes_mapper lib kw"
    by (cases "getitem (options kw) ''mpi''") (simp_all add: make_iet_passes_mapper_def)
  with ipm have ipm': "\<And>m. make_iet_passes_mapper lib (kw\<lparr>mode := m\<rparr>) = Inr ipm"
    by simp
  have 1: "CustomOperator_specialize_clusters lib kw =
       pipeline_executor (List.map_filter cpm (as_tuple (mode kw)))"
    by (rule custom_clusters_eq[OF assms(1) cpm])
  have 2: "CustomOperator_specialize_iet lib kw =
       iet_pipeline_executor
         (List.map_filter ipm (as_tuple (mode kw))
          @ (if ''mpi'' \<notin> set (as_tuple (mode kw)) \<and> truthy mpi
             then [call_iet lib (Mpiize mpi)] else [])
          @ (if ''openmp'' \<notin> set (as_tuple (mode kw)) \<and> truthy openmp
             then [call_iet lib Make_parallel] else [])
          @ [call_iet lib Place_definitions, call_iet lib Place_casts])"
    by (rule custom_iet_eq[OF assms(2) ipm assms(4,5)])
  have 3: "\<forall>t xs ys. cpm t = None \<longrightarrow>
        CustomOperator_specialize_clusters lib (kw\<lparr>mode := xs @ [t] @ ys\<rparr>) =
        CustomOperator_specialize_clusters lib (kw\<lparr>mode := xs @ ys\<rparr>)"
    by (simp add: custom_clusters_eq[OF assms(1) cpm'] as_tuple_def map_filter_def)
  have 4: "\<forall>t xs ys. ipm t = None \<longrightarrow>
        CustomOperator_specialize_iet lib (kw\<lparr>mode := xs @ [t] @ ys\<rparr>) =
        CustomOperator_specialize_iet lib (kw\<lparr>mode := xs @ ys\<rparr>)"
  proof (intro allI impI)
    fix t xs ys
    assume n: "ipm t = None"
    with ipm_mpi ipm_openmp have t: "t \<noteq> ''mpi''" "t \<noteq> ''openmp''"
      by auto
    have o: "\<And>m. options (kw\<lparr>mode := m\<rparr>) ''mpi'' = Some mpi"
      "\<And>m. options (kw\<lparr>mode := m\<rparr>) ''openmp'' = Some openmp"
      using assms(4,5) by simp_all
    show "CustomOperator_specialize_iet lib (kw\<lparr>mode := xs @ [t] @ ys\<rparr>) =
        CustomOperator_specialize_iet lib (kw\<lparr>mode := xs @ ys\<rparr>)"
      unfolding custom_iet_eq[OF assms(2) ipm' o]
      using n t by (simp add: as_tuple_def map_filter_def)
  qed
  have 5: "\<forall>t clusters s. cpm t = None \<longrightarrow>
        CustomOperator_specialize_clusters lib (kw\<lparr>mode := [t]\<rparr>) clusters s =
          (s, Inr clusters)"
    by (simp add: custom_clusters_eq[OF assms(1) cpm'] as_tuple_def map_filter_simps pure_apply)
  show ?thesis
    by (intro exI[of _ cpm] exI[of _ ipm] conjI cpm ipm 1 2 3 4 5)
qed

theorem custom_passes_in_caller_order_witness:
  "(\<forall>c x w k. snd (cluster_pass example_passes c x w) \<noteq> Inl (KeyError k)) \<and>
   (\<forall>c w k. snd (iet_pass example_passes c w) \<noteq> Inl (KeyError k)) \<and>
   Blocking_init example_passes (options (example_kwargs [''cse'', ''openmp'', ''fuse''])) = Inr () \<and>
   options (example_kwargs [''cse'', ''openmp'', ''fuse'']) ''mpi'' = Some (PBool True) \<and>
   options (example_kwargs [''cse'', ''openmp'', ''fuse'']) ''openmp'' = Some (PBool False) \<and>
   CustomOperator_specialize_clusters example_passes (example_kwargs [''cse'', ''openmp'', ''fuse''])
     5 ([], 0) = (([Cse, Fuse False], 2), Inr 7) \<and>
   CustomOperator_specialize_iet example_passes (example_kwargs [''cse'', ''openmp'', ''fuse''])
     ([], 0) = (([Make_parallel, Mpiize (PBool True), Place_definitions, Place_casts], 4), Inr ())"
proof -
  let ?kw = "example_kwargs [''cse'', ''openmp'', ''fuse'']"
  from custom_passes_in_caller_order[OF example_passes_ok(3) example_passes_ok(4)
      example_Blocking_init_ok[of "[''cse'', ''openmp'', ''fuse'']"]
      example_kwargs_options(1)[of "[''cse'', ''openmp'', ''fuse'']"]
      example_kwargs_options(2)[of "[''cse'', ''openmp'', ''fuse'']"]]
  obtain cpm ipm where cpm: "make_clusters_passes_mapper example_passes ?kw = Inr cpm"
    and ipm: "make_iet_passes_mapper example_passes ?kw = Inr ipm"
    and c: "CustomOperator_specialize_clusters example_passes ?kw =
       pipeline_executor (List.map_filter cpm (as_tuple (mode ?kw)))"
    and i: "CustomOperator_specialize_iet example_passes ?kw =
       iet_pipeline_executor
         (List.map_filter ipm (as_tuple (mode ?kw))
          @ (if ''mpi'' \<notin> set (as_tuple (mode ?kw)) \<and> truthy (PBool True)
             then [call_iet example_passes (Mpiize (PBool True))] else [])
          @ (if ''openmp'' \<notin> set (as_tuple (mode ?kw)) \<and> truthy (PBool False)
             then [call_iet example_passes Make_parallel] else [])
          @ [call_iet example_passes Place_definitions, call_iet example_passes Place_casts])"
    by blast
  from cpm have cl: "List.map_filter cpm [''cse'', ''openmp'', ''fuse''] =
           [call_cluster example_passes Cse, call_cluster example_passes (Fuse False)]"
    by (cases "Blocking_init example_passes (options ?kw)")
       (auto simp add: make_clusters_passes_mapper_def map_filter_simps)
  from ipm have il: "List.map_filter ipm [''cse'', ''openmp'', ''fuse''] =
           [call_iet example_passes Make_parallel]"
    by (cases "getitem (options ?kw) ''mpi''")
       (auto simp add: make_iet_passes_mapper_def map_filter_simps)
  have 1: "CustomOperator_specialize_clusters example_passes ?kw 5 ([], 0) =
      (([Cse, Fuse False], 2), Inr 7)"
    unfolding c example_kwargs_mode cl
    by (simp add: andthen_apply call_cluster_apply pure_apply example_passes_def)
  have 2: "CustomOperator_specialize_iet example_passes ?kw ([], 0) =
      (([Make_parallel, Mpiize (PBool True), Place_definitions, Place_casts], 4), Inr ())"
    unfolding i example_kwargs_mode il
    by (simp add: andthen_apply call_iet_apply pure_apply example_passes_def)
  show ?thesis
    by (intro conjI example_passes_ok example_Blocking_init_ok example_kwargs_options 1 2)
qed

section \<open>A KeyError raised inside a pass of the custom operator\<close>

text \<open>
  Claim C5 says that an exception raised inside a pass leaves the orchestration unchanged
  and ends the pipeline. The \<^verbatim>\<open>try\<close> block of the custom loops holds the call of the pass, so
  a \<^verbatim>\<open>KeyError\<close> from inside a pass is caught: with \<^verbatim>\<open>mode = ('cse', 'fuse')\<close> and a \<^verbatim>\<open>cse\<close>
  that raises \<^verbatim>\<open>KeyError\<close>, the cluster stage goes on to \<^verbatim>\<open>fuse\<close> and returns a cluster
  sequence as a success, without the effect of \<^verbatim>\<open>cse\<close>. The fixed pipeline of
  \<^verbatim>\<open>CPU64Operator\<close> lets the same exception through.
\<close>

theorem custom_clusters_swallow_keyerror:
  "cluster_pass keyerror_passes Cse 2 0 = (0, Inl (KeyError ''symbol'')) \<and>
   CustomOperator_specialize_clusters keyerror_passes (example_kwargs [''cse'', ''fuse''])
       2 ([], 0) = (([Cse, Fuse False], 1), Inr 3) \<and>
   snd (CPU64Operator_specialize_clusters keyerror_passes (example_kwargs []) 2 ([], 0)) =
     Inl (KeyError ''symbol'')"
proof -
  have 1: "cluster_pass keyerror_passes Cse 2 0 = (0, Inl (KeyError ''symbol''))"
    by (simp add: keyerror_passes_def)
  have 2: "CustomOperator_specialize_clusters keyerror_passes (example_kwargs [''cse'', ''fuse''])
       2 ([], 0) = (([Cse, Fuse False], 1), Inr 3)"
    by (simp add: keyerror_passes_def CustomOperator_specialize_clusters_def Let_def as_tuple_def
        example_kwargs_def make_clusters_passes_mapper_def example_Blocking_init_def getitem_def
        andthen_lift_Inr call_cluster_apply pure_apply)
  have 3: "snd (CPU64Operator_specialize_clusters keyerror_passes (example_kwargs []) 2 ([], 0)) =
     Inl (KeyError ''symbol'')"
    by (simp add: keyerror_passes_def CPU64Operator_specialize_clusters_def andthen_apply
        call_cluster_apply example_kwargs_def example_Blocking_init_def getitem_def lift_apply)
  show ?thesis
    by (intro conjI 1 2 3)
qed

section \<open>Symbol placement comes last\<close>



section \<open>Defaults and consolidation of the tunables\<close>




section \<open>FSG defers blocking\<close>

text \<open>
  Claim C8. The cluster pipeline of \<^verbatim>\<open>CPU64Operator\<close> is the pipeline executor on three
  passes, then blocking, then the seven passes from the extraction of increments to the
  elimination of arrays; the pipeline of \<^verbatim>\<open>Intel64FSGOperator\<close> is the pipeline executor on
  the same three and the same seven passes, in the same order and with the same
  arguments, and blocking after them, as its last pass. Blocking is in both the
  construction \<^verbatim>\<open>Blocking(options)\<close> followed by the call of \<^verbatim>\<open>process\<close>. When every cluster
  pass returns and the construction succeeds, both pipelines return and their traces are
  the eleven calls in these two orders.
\<close>

theorem fsg_defers_blocking:
  "CPU64Operator_specialize_clusters lib kw =
     pipeline_executor
       ([call_cluster lib (Fuse True),
         call_cluster lib (Cire ''invariants'' (options kw) (platform kw)),
         call_cluster lib Lift_process]
        @ [\<lambda>clusters. andthen (lift (Blocking_init lib (options kw)))
                        (\<lambda>_. call_cluster lib (Blocking_process (options kw)) clusters)]
        @ [call_cluster lib Extract_increments,
           call_cluster lib (Cire ''sops'' (options kw) (platform kw)),
           call_cluster lib Factorize,
           call_cluster lib Optimize_pows,
           call_cluster lib Cse,
           call_cluster lib (Fuse False),
           call_cluster lib Eliminate_arrays]) \<and>
   Intel64FSGOperator_specialize_clusters lib kw =
     pipeline_executor
       ([call_cluster lib (Fuse True),
         call_cluster lib (Cire ''invariants'' (options kw) (platform kw)),
         call_cluster lib Lift_process]
        @ [call_cluster lib Extract_increments,
           call_cluster lib (Cire ''sops'' (options kw) (platform kw)),
           call_cluster lib Factorize,
           call_cluster lib Optimize_pows,
           call_cluster lib Cse,
           call_cluster lib (Fuse False),
           call_cluster lib Eliminate_arrays]
        @ [\<lambda>clusters. andthen (lift (Blocking_init lib (options kw)))
                        (\<lambda>_. call_cluster lib (Blocking_process (options kw)) clusters)]) \<and>
   ((\<forall>c x w. \<exists>x'. snd (cluster_pass lib c x w) = Inr x') \<and>
    Blocking_init lib (options kw) = Inr () \<longrightarrow>
    (\<exists>w1 x1 w2 x2.
     CPU64Operator_specialize_clusters lib kw clusters (tr, w) =
       ((tr @ [Fuse True, Cire ''invariants'' (options kw) (platform kw), Lift_process]
            @ [Blocking_process (options kw)]
            @ [Extract_increments, Cire ''sops'' (options kw) (platform kw), Factorize,
               Optimize_pows, Cse, Fuse False, Eliminate_arrays], w1), Inr x1) \<and>
     Intel64FSGOperator_specialize_clusters lib kw clusters (tr, w) =
       ((tr @ [Fuse True, Cire ''invariants'' (options kw) (platform kw), Lift_process]
            @ [Extract_increments, Cire ''sops'' (options kw) (platform kw), Factorize,
               Optimize_pows, Cse, Fuse False, Eliminate_arrays]
            @ [Blocking_process (options kw)], w2), Inr x2)))"
  by (intro conjI impI base_clusters_eq fsg_clusters_eq fsg_base_traces) blast+

theorem fsg_defers_blocking_witness:
  "(\<forall>c x w. \<exists>x'. snd (cluster_pass example_passes c x w) = Inr x') \<and>
   Blocking_init example_passes (options (example_kwargs [])) = Inr () \<and>
   CPU64Operator_specialize_clusters example_passes (example_kwargs []) 0 ([], 0) =
     (([Fuse True, Cire ''invariants'' (options (example_kwargs [])) (platform (example_kwargs [])),
        Lift_process, Blocking_process (options (example_kwargs [])),
        Extract_increments,
        Cire ''sops'' (options (example_kwargs [])) (platform (example_kwargs [])),
        Factorize, Optimize_pows, Cse, Fuse False, Eliminate_arrays], 11), Inr 11) \<and>
   Intel64FSGOperator_specialize_clusters example_passes (example_kwargs []) 0 ([], 0) =
     (([Fuse True, Cire ''invariants'' (options (example_kwargs [])) (platform (example_kwargs [])),
        Lift_process, Extract_increments,
        Cire ''sops'' (options (example_kwargs [])) (platform (example_kwargs [])),
        Factorize, Optimize_pows, Cse, Fuse False, Eliminate_arrays,
        Blocking_process (options (example_kwargs []))], 11), Inr 11)"
proof -
  note t = fsg_defers_blocking[of example_passes "example_kwargs []" 0 "[]" 0]
  have e: "\<And>c x w. cluster_pass example_passes c x w = (Suc w, Inr (Suc x))"
    by (simp add: example_passes_def)
  from t have "CPU64Operator_specialize_clusters example_passes (example_kwargs []) 0 ([], 0) =
     (([Fuse True, Cire ''invariants'' (options (example_kwargs [])) (platform (example_kwargs [])),
        Lift_process, Blocking_process (options (example_kwargs [])),
        Extract_increments,
        Cire ''sops'' (options (example_kwargs [])) (platform (example_kwargs [])),
        Factorize, Optimize_pows, Cse, Fuse False, Eliminate_arrays], 11), Inr 11)"
    by (simp only: conjunct1[OF t])
       (simp add: andthen_apply call_cluster_apply pure_apply lift_apply e
          example_Blocking_init_ok)
  moreover from t have "Intel64FSGOperator_specialize_clusters example_passes (example_kwargs [])
       0 ([], 0) =
     (([Fuse True, Cire ''invariants'' (options (example_kwargs [])) (platform (example_kwargs [])),
        Lift_process, Extract_increments,
        Cire ''sops'' (options (example_kwargs [])) (platform (example_kwargs [])),
        Factorize, Optimize_pows, Cse, Fuse False, Eliminate_arrays,
        Blocking_process (options (example_kwargs []))], 11), Inr 11)"
    by (simp only: conjunct1[OF conjunct2[OF t]])
       (simp add: andthen_apply call_cluster_apply pure_apply lift_apply e
          example_Blocking_init_ok)
  ultimately show ?thesis
    by (intro conjI example_passes_ok(2) example_Blocking_init_ok)
qed

section \<open>Falsy tunables are replaced by the class defaults\<close>

text \<open>
  Claim C9. With the five tunables present (and, for the FSG classes, \<^verbatim>\<open>min-storage\<close> not
  requested), normalization returns, and each tunable whose value is falsy ---
  \<^verbatim>\<open>None\<close>, \<^verbatim>\<open>False\<close>, 0 or an empty value --- is replaced by the class attribute: 1, 1, 5, 50
  and 10. Every normalized tunable is truthy; none of them is 0.
\<close>

theorem normalize_kwargs_falsy_replaced:
  assumes "options kw ''blocklevels'' = Some bl"
    and "options kw ''cire-repeats-inv'' = Some ri"
    and "options kw ''cire-repeats-sops'' = Some rs"
    and "options kw ''cire-mincost-inv'' = Some mi"
    and "options kw ''cire-mincost-sops'' = Some ms"
    and "c \<in> {Intel64FSGOperator, Intel64FSGOpenMPOperator} \<longrightarrow>
           \<not> truthy (dict_get (options kw) ''min-storage'')"
  shows "\<exists>kw' bl' ri' rs' mi' ms'. normalize_kwargs c kw = Inr kw' \<and>
     options kw' ''blocklevels'' = Some bl' \<and>
     options kw' ''cire-repeats'' = Some (PDict [(''invariants'', ri'), (''sops'', rs')]) \<and>
     options kw' ''cire-mincost'' = Some (PDict [(''invariants'', mi'), (''sops'', ms')]) \<and>
     (\<not> truthy bl \<longrightarrow> bl' = BLOCK_LEVELS c) \<and>
     (\<not> truthy ri \<longrightarrow> ri' = CIRE_REPEATS_INV c) \<and>
     (\<not> truthy rs \<longrightarrow> rs' = CIRE_REPEATS_SOPS c) \<and>
     (\<not> truthy mi \<longrightarrow> mi' = CIRE_MINCOST_INV c) \<and>
     (\<not> truthy ms \<longrightarrow> ms' = CIRE_MINCOST_SOPS c) \<and>
     BLOCK_LEVELS c = PInt 1 \<and> CIRE_REPEATS_INV c = PInt 1 \<and> CIRE_REPEATS_SOPS c = PInt 5 \<and>
     CIRE_MINCOST_INV c = PInt 50 \<and> CIRE_MINCOST_SOPS c = PInt 10 \<and>
     truthy bl' \<and> truthy ri' \<and> truthy rs' \<and> truthy mi' \<and> truthy ms' \<and>
     PInt 0 \<notin> {bl', ri', rs', mi', ms'}"
proof -
  obtain d where d: "normalize_kwargs c kw = Inr (kw\<lparr>options := d\<rparr>)"
    "d ''blocklevels'' = Some (py_or bl (PInt 1))"
    "d ''cire-repeats'' =
           Some (PDict [(''invariants'', py_or ri (PInt 1)), (''sops'', py_or rs (PInt 5))])"
    "d ''cire-mincost'' =
           Some (PDict [(''invariants'', py_or mi (PInt 50)), (''sops'', py_or ms (PInt 10))])"
    "d ''cire-repeats-inv'' = None" "d ''cire-repeats-sops'' = None"
    "d ''cire-mincost-inv'' = None" "d ''cire-mincost-sops'' = None"
    "\<forall>k. k \<notin> {''blocklevels'', ''cire-repeats'', ''cire-mincost'', ''cire-repeats-inv'',
                ''cire-repeats-sops'', ''cire-mincost-inv'', ''cire-mincost-sops''} \<longrightarrow>
          d k = options kw k"
    using normalized_options[OF assms] by (elim exE conjE) (rule that)
  have o: "options (kw\<lparr>options := d\<rparr>) = d"
    by simp
  have t: "\<And>x n. n \<noteq> 0 \<Longrightarrow> truthy (py_or x (PInt n))"
    by (simp add: py_or_def)
  have z: "\<And>x n. n \<noteq> 0 \<Longrightarrow> PInt 0 \<noteq> py_or x (PInt n)"
    by (auto simp add: py_or_def)
  have f: "\<And>x d. \<not> truthy x \<Longrightarrow> py_or x d = d"
    by (simp add: py_or_def)
  have "normalize_kwargs c kw = Inr (kw\<lparr>options := d\<rparr>) \<and>
     options (kw\<lparr>options := d\<rparr>) ''blocklevels'' = Some (py_or bl (PInt 1)) \<and>
     options (kw\<lparr>options := d\<rparr>) ''cire-repeats'' =
       Some (PDict [(''invariants'', py_or ri (PInt 1)), (''sops'', py_or rs (PInt 5))]) \<and>
     options (kw\<lparr>options := d\<rparr>) ''cire-mincost'' =
       Some (PDict [(''invariants'', py_or mi (PInt 50)), (''sops'', py_or ms (PInt 10))]) \<and>
     (\<not> truthy bl \<longrightarrow> py_or bl (PInt 1) = BLOCK_LEVELS c) \<and>
     (\<not> truthy ri \<longrightarrow> py_or ri (PInt 1) = CIRE_REPEATS_INV c) \<and>
     (\<not> truthy rs \<longrightarrow> py_or rs (PInt 5) = CIRE_REPEATS_SOPS c) \<and>
     (\<not> truthy mi \<longrightarrow> py_or mi (PInt 50) = CIRE_MINCOST_INV c) \<and>
     (\<not> truthy ms \<longrightarrow> py_or ms (PInt 10) = CIRE_MINCOST_SOPS c) \<and>
     BLOCK_LEVELS c = PInt 1 \<and> CIRE_REPEATS_INV c = PInt 1 \<and> CIRE_REPEATS_SOPS c = PInt 5 \<and>
     CIRE_MINCOST_INV c = PInt 50 \<and> CIRE_MINCOST_SOPS c = PInt 10 \<and>
     truthy (py_or bl (PInt 1)) \<and> truthy (py_or ri (PInt 1)) \<and> truthy (py_or rs (PInt 5)) \<and>
     truthy (py_or mi (PInt 50)) \<and> truthy (py_or ms (PInt 10)) \<and>
     PInt 0 \<notin> {py_or bl (PInt 1), py_or ri (PInt 1), py_or rs (PInt 5),
                py_or mi (PInt 50), py_or ms (PInt 10)}"
    unfolding o using d
    by (simp add: t z f BLOCK_LEVELS_def CIRE_REPEATS_INV_def CIRE_REPEATS_SOPS_def
        CIRE_MINCOST_INV_def CIRE_MINCOST_SOPS_def del: truthy.simps)
  then show ?thesis by blast
qed

theorem normalize_kwargs_falsy_replaced_witness:
  "options (example_kwargs []) ''blocklevels'' = Some (PInt 0) \<and>
   options (example_kwargs []) ''cire-repeats-inv'' = Some PNone \<and>
   options (example_kwargs []) ''cire-repeats-sops'' = Some (PInt 3) \<and>
   options (example_kwargs []) ''cire-mincost-inv'' = Some (PInt 0) \<and>
   options (example_kwargs []) ''cire-mincost-sops'' = Some (PBool False) \<and>
   CustomOperator \<notin> {Intel64FSGOperator, Intel64FSGOpenMPOperator} \<and>
   (\<exists>kw' rs'. normalize_kwargs CustomOperator (example_kwargs []) = Inr kw' \<and>
     options kw' ''blocklevels'' = Some (PInt 1) \<and>
     options kw' ''cire-repeats'' = Some (PDict [(''invariants'', PInt 1), (''sops'', rs')]) \<and>
     options kw' ''cire-mincost'' = Some (PDict [(''invariants'', PInt 50), (''sops'', PInt 10)]) \<and>
     truthy rs')"
proof -
  have n: "CustomOperator \<notin> {Intel64FSGOperator, Intel64FSGOpenMPOperator}"
    by simp
  then have c: "CustomOperator \<in> {Intel64FSGOperator, Intel64FSGOpenMPOperator} \<longrightarrow>
      \<not> truthy (dict_get (options (example_kwargs [])) ''min-storage'')"
    by simp
  have t: "\<not> truthy (PInt 0)" "\<not> truthy PNone" "\<not> truthy (PBool False)"
    by simp_all
  from normalize_kwargs_falsy_replaced[OF example_kwargs_options(3-7)[of "[]"] c] t
  have "\<exists>kw' rs'. normalize_kwargs CustomOperator (example_kwargs []) = Inr kw' \<and>
     options kw' ''blocklevels'' = Some (PInt 1) \<and>
     options kw' ''cire-repeats'' = Some (PDict [(''invariants'', PInt 1), (''sops'', rs')]) \<and>
     options kw' ''cire-mincost'' = Some (PDict [(''invariants'', PInt 50), (''sops'', PInt 10)]) \<and>
     truthy rs'"
    by (elim exE conjE) (intro exI conjI, simp_all)
  with example_kwargs_options(3-7)[of "[]"] n show ?thesis
    by (intro conjI)
qed

section \<open>The token blocking belongs to both stages\<close>

text \<open>
  Claim C10. Let the option \<^verbatim>\<open>mpi\<close> be present and \<^verbatim>\<open>Blocking(options)\<close> be built, so that
  both mappers of the custom operator are built. Their key sets are the eight cluster
  tokens and the seven IET tokens; they share the key \<^verbatim>\<open>'blocking'\<close> and no other: every
  other token of the vocabulary is a key of at most one of them. In the cluster mapper
  the token stands for \<^verbatim>\<open>Blocking(options).process\<close>, in the IET mapper for
  \<^verbatim>\<open>relax_incr_dimensions\<close>. With \<^verbatim>\<open>mode = ('blocking',)\<close> the cluster stage invokes the
  former, once, and returns its result (its input when the pass raises \<^verbatim>\<open>KeyError\<close>); the
  IET stage starts by invoking the latter, and is the IET executor on that call, the
  forced calls and the two placement steps when no IET pass raises \<^verbatim>\<open>KeyError\<close> and the
  option \<^verbatim>\<open>openmp\<close> is present.
\<close>

theorem blocking_token_in_both_stages:
  assumes "options kw ''mpi'' = Some mpi"
    and "Blocking_init lib (options kw) = Inr ()"
  shows "\<exists>cpm ipm.
     make_clusters_passes_mapper lib kw = Inr cpm \<and>
     make_iet_passes_mapper lib kw = Inr ipm \<and>
     dom cpm = {''blocking'', ''factorize'', ''fuse'', ''lift'', ''cire-sops'', ''cse'',
                ''opt-pows'', ''topofuse''} \<and>
     dom ipm = {''denormals'', ''optcomms'', ''blocking'', ''openmp'', ''mpi'', ''simd'',
                ''prodders''} \<and>
     dom cpm \<inter> dom ipm = {''blocking''} \<and>
     (\<forall>t \<in> set known_passes. t \<noteq> ''blocking'' \<longrightarrow> \<not> (t \<in> dom cpm \<and> t \<in> dom ipm)) \<and>
     cpm ''blocking'' = Some (call_cluster lib (Blocking_process (options kw))) \<and>
     ipm ''blocking'' = Some (call_iet lib Relax_incr_dimensions) \<and>
     CustomOperator_specialize_clusters lib (kw\<lparr>mode := [''blocking'']\<rparr>) clusters (tr, w) =
       ((tr @ [Blocking_process (options kw)],
         fst (cluster_pass lib (Blocking_process (options kw)) clusters w)),
        (case snd (cluster_pass lib (Blocking_process (options kw)) clusters w) of
           Inl (KeyError k) \<Rightarrow> Inr clusters
         | r \<Rightarrow> r)) \<and>
     (\<exists>rest. fst (fst (CustomOperator_specialize_iet lib (kw\<lparr>mode := [''blocking'']\<rparr>) (tr, w))) =
              tr @ [Relax_incr_dimensions] @ rest) \<and>
     ((\<forall>c w k. snd (iet_pass lib c w) \<noteq> Inl (KeyError k)) \<and>
      ''openmp'' \<in> dom (options kw) \<longrightarrow>
        CustomOperator_specialize_iet lib (kw\<lparr>mode := [''blocking'']\<rparr>) =
          iet_pipeline_executor
            ([call_iet lib Relax_incr_dimensions]
             @ (if truthy mpi then [call_iet lib (Mpiize mpi)] else [])
             @ (if truthy (dict_get (options kw) ''openmp'') then [call_iet lib Make_parallel]
                else [])
             @ [call_iet lib Place_definitions, call_iet lib Place_casts]))"
proof -
  let ?kw = "kw\<lparr>mode := [''blocking'']\<rparr>"
  from clusters_mapper_entries[OF assms(2)] obtain cpm where
    cpm: "make_clusters_passes_mapper lib kw = Inr cpm"
    and cpm_blocking: "cpm ''blocking'' = Some (call_cluster lib (Blocking_process (options kw)))"
    and cpm_dom: "dom cpm = {''blocking'', ''factorize'', ''fuse'', ''lift'', ''cire-sops'',
                   ''cse'', ''opt-pows'', ''topofuse''}"
    by blast
  from iet_mapper_entries[OF assms(1), of lib] obtain ipm where
    ipm: "make_iet_passes_mapper lib kw = Inr ipm"
    and ipm_blocking: "ipm ''blocking'' = Some (call_iet lib Relax_incr_dimensions)"
    and ipm_dom: "dom ipm = {''denormals'', ''optcomms'', ''blocking'', ''openmp'', ''mpi'',
                   ''simd'', ''prodders''}"
    by blast
  have inter: "dom cpm \<inter> dom ipm = {''blocking''}"
    unfolding cpm_dom ipm_dom by auto
  then have others: "\<forall>t \<in> set known_passes. t \<noteq> ''blocking'' \<longrightarrow>
        \<not> (t \<in> dom cpm \<and> t \<in> dom ipm)"
    by blast
  have iet: "(\<forall>c w k. snd (iet_pass lib c w) \<noteq> Inl (KeyError k)) \<and>
      ''openmp'' \<in> dom (options kw) \<longrightarrow>
        CustomOperator_specialize_iet lib ?kw =
          iet_pipeline_executor
            ([call_iet lib Relax_incr_dimensions]
             @ (if truthy mpi then [call_iet lib (Mpiize mpi)] else [])
             @ (if truthy (dict_get (options kw) ''openmp'') then [call_iet lib Make_parallel]
                else [])
             @ [call_iet lib Place_definitions, call_iet lib Place_casts])"
  proof
    assume a: "(\<forall>c w k. snd (iet_pass lib c w) \<noteq> Inl (KeyError k)) \<and>
      ''openmp'' \<in> dom (options kw)"
    then obtain openmp where o: "options kw ''openmp'' = Some openmp" by blast
    have "make_iet_passes_mapper lib ?kw = make_iet_passes_mapper lib kw"
      by (cases "getitem (options kw) ''mpi''") (simp_all add: make_iet_passes_mapper_def)
    with ipm have ipm': "make_iet_passes_mapper lib ?kw = Inr ipm" by simp
    have o': "options ?kw ''mpi'' = Some mpi" "options ?kw ''openmp'' = Some openmp"
      using assms(1) o by simp_all
    from a have l: "\<forall>c w k. snd (iet_pass lib c w) \<noteq> Inl (KeyError k)" by blast
    show "CustomOperator_specialize_iet lib ?kw =
          iet_pipeline_executor
            ([call_iet lib Relax_incr_dimensions]
             @ (if truthy mpi then [call_iet lib (Mpiize mpi)] else [])
             @ (if truthy (dict_get (options kw) ''openmp'') then [call_iet lib Make_parallel]
                else [])
             @ [call_iet lib Place_definitions, call_iet lib Place_casts])"
      unfolding custom_iet_eq[OF l ipm' o']
      by (simp add: as_tuple_def map_filter_simps ipm_blocking dict_get_def o)
  qed
  show ?thesis
    by (intro exI[of _ cpm] exI[of _ ipm] conjI cpm ipm cpm_dom ipm_dom inter others
        cpm_blocking ipm_blocking custom_clusters_blocking_run[OF assms(2)]
        custom_iet_blocking_trace[OF assms(1)] iet)
qed

theorem blocking_token_in_both_stages_witness:
  "options (example_kwargs []) ''mpi'' = Some (PBool True) \<and>
   Blocking_init example_passes (options (example_kwargs [])) = Inr () \<and>
   CustomOperator_specialize_clusters example_passes ((example_kwargs [])\<lparr>mode := [''blocking'']\<rparr>)
     0 ([], 0) = (([Blocking_process (options (example_kwargs []))], 1), Inr 1) \<and>
   (\<exists>rest. fst (fst (CustomOperator_specialize_iet example_passes
                       ((example_kwargs [])\<lparr>mode := [''blocking'']\<rparr>) ([], 0))) =
            [Relax_incr_dimensions] @ rest)"
proof -
  from blocking_token_in_both_stages[OF example_kwargs_options(1)[of "[]"]
      example_Blocking_init_ok[of "[]"], of 0 "[]" 0]
  have c: "CustomOperator_specialize_clusters example_passes
       ((example_kwargs [])\<lparr>mode := [''blocking'']\<rparr>) 0 ([], 0) =
       (([] @ [Blocking_process (options (example_kwargs []))],
         fst (cluster_pass example_passes (Blocking_process (options (example_kwargs []))) 0 0)),
        (case snd (cluster_pass example_passes
                     (Blocking_process (options (example_kwargs []))) 0 0) of
           Inl (KeyError k) \<Rightarrow> Inr 0
         | r \<Rightarrow> r))"
    and i: "\<exists>rest. fst (fst (CustomOperator_specialize_iet example_passes
                       ((example_kwargs [])\<lparr>mode := [''blocking'']\<rparr>) ([], 0))) =
            [] @ [Relax_incr_dimensions] @ rest"
    by blast+
  have e: "\<And>c x w. cluster_pass example_passes c x w = (Suc w, Inr (Suc x))"
    by (simp add: example_passes_def)
  from c have 1: "CustomOperator_specialize_clusters example_passes
       ((example_kwargs [])\<lparr>mode := [''blocking'']\<rparr>) 0 ([], 0) =
       (([Blocking_process (options (example_kwargs []))], 1), Inr 1)"
    by (simp add: e)
  from i have 2: "\<exists>rest. fst (fst (CustomOperator_specialize_iet example_passes
                       ((example_kwargs [])\<lparr>mode := [''blocking'']\<rparr>) ([], 0))) =
            [Relax_incr_dimensions] @ rest"
    by simp
  show ?thesis
    by (intro conjI example_kwargs_options(1) example_Blocking_init_ok 1 2)
qed

end
